theory Spec2Isabelle
  imports Complex_Main "HOL-Library.Log_Nat"
begin

section \<open>Values\<close>

text \<open>
  A text is a list of characters, each one of the first 256 code points. A \<^verbatim>\<open>datetime\<close> is
  a point on the time line with an optional offset from UTC; it is naive when it has none.
  A \<^verbatim>\<open>UUID\<close> object is kept by the 32 hexadecimal digits that its \<^verbatim>\<open>hex\<close> attribute gives.
  \<open>pyval\<close> are the values that the attributes of a request, of a storage row and of a
  dictionary take, and the members of the tuple \<^verbatim>\<open>args\<close> of an exception.
\<close>

record datetime =
  microseconds :: int
  utcoffset :: "int option"

datatype uuid = UUID_hex (hex: string)

datatype pyval = PyNone | PyStr string | PyDatetime datetime | PyUUID uuid

section \<open>Exceptions\<close>

text \<open>
  Exceptions of the interpreter and of the libraries are values: the class name, the tuple
  \<^verbatim>\<open>err.args\<close>, the text that \<^verbatim>\<open>str(err)\<close> gives, the text that \<^verbatim>\<open>str(err.__cause__)\<close>
  gives, and the attribute \<^verbatim>\<open>status_code\<close> of the object when it has one.
\<close>

datatype py_exn =
  PyExn (exn_class: string) (exn_args: "pyval list") (exn_str: string) (exn_cause: string)
    (exn_status_code: "int option")

text \<open>
  An exception of the interpreter built from its message: \<^verbatim>\<open>args\<close> holds the message,
  there is no cause and no attribute \<^verbatim>\<open>status_code\<close>.
\<close>

definition builtin_exn :: "string \<Rightarrow> string \<Rightarrow> py_exn" where
  "builtin_exn cls message = PyExn cls [PyStr message] message ''None'' None"

definition ZeroDivisionError :: py_exn where
  "ZeroDivisionError = builtin_exn ''ZeroDivisionError'' ''division by zero''"

definition OverflowError :: py_exn where
  "OverflowError =
     builtin_exn ''OverflowError'' ''integer division result too large for a float''"

definition ValueError :: "string \<Rightarrow> py_exn" where
  "ValueError text = builtin_exn ''ValueError'' text"

definition TypeError :: "string \<Rightarrow> py_exn" where
  "TypeError text = builtin_exn ''TypeError'' text"

definition IndexError :: "string \<Rightarrow> py_exn" where
  "IndexError text = builtin_exn ''IndexError'' text"

definition AttributeError :: "string \<Rightarrow> py_exn" where
  "AttributeError attr = builtin_exn ''AttributeError'' (''object has no attribute '' @ attr)"

text \<open>
  The validation error of the model classes is built by the validation library, which
  leaves \<^verbatim>\<open>args\<close> empty.
\<close>

definition ValidationError :: "string \<Rightarrow> py_exn" where
  "ValidationError model =
     PyExn ''ValidationError'' [] (''validation error for '' @ model) ''None'' None"


section \<open>Pagination: \<^verbatim>\<open>services/api_pagination_service.py\<close>\<close>

subsection \<open>True division of integers and \<^verbatim>\<open>math.ceil\<close>\<close>

text \<open>
  \<^verbatim>\<open>total_records / limit\<close> is the true division of two unbounded integers: its result is
  the IEEE binary64 number nearest to the exact quotient (ties to the even significand),
  \<^verbatim>\<open>ZeroDivisionError\<close> for a zero divisor and \<^verbatim>\<open>OverflowError\<close> when the rounded quotient
  is beyond the largest double. A double is kept here as the pair \<open>(m, p)\<close> of an integer
  significand and a binary exponent, standing for \<open>m * 2 ^ p\<close>.
\<close>

type_synonym py_float = "int \<times> int"

definition float_value :: "py_float \<Rightarrow> real" where
  "float_value f = real_of_int (fst f) * 2 powr real_of_int (snd f)"

text \<open>\<open>floor_log2 a b\<close> is the integer \<open>e\<close> with \<open>2 ^ e \<le> a / b < 2 ^ (e + 1)\<close>, for positive \<open>a\<close>, \<open>b\<close>.\<close>

definition floor_log2 :: "int \<Rightarrow> int \<Rightarrow> int" where
  "floor_log2 a b =
     (let d = bitlen a - bitlen b
      in if b * 2 ^ nat d \<le> a * 2 ^ nat (- d) then d else d - 1)"

text \<open>Rounding of the quotient \<open>num / den\<close> to the nearest integer, ties to even.\<close>

definition round_half_even :: "int \<Rightarrow> int \<Rightarrow> int" where
  "round_half_even num den =
     (let q = num div den; r = num mod den
      in if 2 * r < den then q
         else if den < 2 * r then q + 1
         else if even q then q else q + 1)"

definition true_divide_pos :: "int \<Rightarrow> int \<Rightarrow> py_exn + py_float" where
  "true_divide_pos a b =
     (let e = floor_log2 a b;
          p = max (e - 52) (- 1074);
          n = round_half_even (a * 2 ^ nat (- p)) (b * 2 ^ nat p)
      in if 971 < p \<or> (p = 971 \<and> n = 2 ^ 53) then Inl OverflowError else Inr (n, p))"

definition int_true_divide :: "int \<Rightarrow> int \<Rightarrow> py_exn + py_float" where
  "int_true_divide a b =
     (if b = 0 then Inl ZeroDivisionError
      else if a = 0 then Inr (0, 0)
      else case true_divide_pos \<bar>a\<bar> \<bar>b\<bar> of
             Inl err \<Rightarrow> Inl err
           | Inr (n, p) \<Rightarrow> Inr (if (a < 0) = (b < 0) then n else - n, p))"

text \<open>\<^verbatim>\<open>math.ceil\<close> of a finite double is the least integer not below it.\<close>

definition math_ceil :: "py_float \<Rightarrow> int" where
  "math_ceil f =
     (case f of (m, p) \<Rightarrow> if 0 \<le> p then m * 2 ^ nat p else - ((- m) div 2 ^ nat (- p)))"

definition get_total_pages :: "int \<Rightarrow> int \<Rightarrow> py_exn + int" where
  "get_total_pages limit total_records =
     (case int_true_divide total_records limit of
        Inl err \<Rightarrow> Inl err
      | Inr x \<Rightarrow> Inr (math_ceil x))"


subsection \<open>Rendering an integer in decimal\<close>

text \<open>
  \<^verbatim>\<open>f"{page - 1}"\<close> and \<^verbatim>\<open>f"{status_code}"\<close> render an integer in decimal, with a
  leading minus sign for a negative one. (The interpreter's configurable bound on the
  number of digits it converts is left out.)
\<close>

definition digit_char :: "nat \<Rightarrow> char" where
  "digit_char d = ''0123456789'' ! d"

function str_nat :: "nat \<Rightarrow> string" where
  "str_nat n = (if n < 10 then [digit_char n] else str_nat (n div 10) @ [digit_char (n mod 10)])"
  by pat_completeness auto
termination
  by (relation "measure id") auto

declare str_nat.simps [simp del]

definition str_int :: "int \<Rightarrow> string" where
  "str_int i = (if i < 0 then CHR ''-'' # str_nat (nat (- i)) else str_nat (nat i))"

subsection \<open>The substitution \<^verbatim>\<open>re.sub(r"(page=)[^&]", rf"\g<1>{n}", base_url)\<close>\<close>

text \<open>
  The pattern matches the five characters \<^verbatim>\<open>page=\<close> followed by one character that is
  not an ampersand. \<open>page_match s\<close> says that it matches at the head of \<open>s\<close>.
\<close>

definition page_match :: "string \<Rightarrow> bool" where
  "page_match s = (take 5 s = ''page='' \<and> 5 < length s \<and> s ! 5 \<noteq> CHR ''&'')"

text \<open>
  \<^verbatim>\<open>re.sub\<close> scans from the left, replaces every match by group 1 (\<^verbatim>\<open>page=\<close>) followed
  by the digits of the template, and goes on behind the six characters matched.
\<close>

fun re_sub_page :: "string \<Rightarrow> string \<Rightarrow> string" where
  "re_sub_page repl [] = []"
| "re_sub_page repl (c # cs) =
     (if page_match (c # cs) then ''page='' @ repl @ re_sub_page repl (drop 5 cs)
      else c # re_sub_page repl cs)"

text \<open>\<open>has_page_match s\<close>: the pattern matches somewhere in \<open>s\<close>.\<close>

fun has_page_match :: "string \<Rightarrow> bool" where
  "has_page_match [] = False"
| "has_page_match (c # cs) = (page_match (c # cs) \<or> has_page_match cs)"

text \<open>The substring test \<^verbatim>\<open>sub in s\<close>.\<close>

fun str_contains :: "string \<Rightarrow> string \<Rightarrow> bool" where
  "str_contains sub [] = (sub = [])"
| "str_contains sub (c # cs) = (take (length sub) (c # cs) = sub \<or> str_contains sub cs)"

text \<open>A decimal digit, as the value of a \<^verbatim>\<open>page\<close> parameter below ten is written.\<close>

definition is_digit :: "char \<Rightarrow> bool" where
  "is_digit c = (c \<in> set ''0123456789'')"

subsection \<open>\<^verbatim>\<open>APIPaginationService\<close>\<close>

definition get_previous_page :: "string \<Rightarrow> int \<Rightarrow> int \<Rightarrow> int \<Rightarrow> string option" where
  "get_previous_page base_url page limit total_records =
     (if page = 1 then None
      else if total_records - (page - 1) * limit \<le> 0 then None
      else Some (re_sub_page (str_int (page - 1)) base_url))"

definition get_next_page :: "string \<Rightarrow> int \<Rightarrow> int \<Rightarrow> int \<Rightarrow> string option" where
  "get_next_page base_url page limit total_records =
     (if total_records - page * limit \<le> 0 then None
      else if str_contains ''page'' base_url
        then Some (re_sub_page (str_int (page + 1)) base_url)
      else if str_contains ''limit'' base_url
        then Some (base_url @ ''&page='' @ str_int (page + 1))
      else Some (base_url @ ''?page='' @ str_int (page + 1) @ ''&limit=1''))"

text \<open>
  The fields of \<^verbatim>\<open>APIPaginationData\<close> and of \<^verbatim>\<open>APIPaginationResponse\<close> carry the same
  names in the source; here each record prefixes its own.
\<close>

record 'a api_pagination_data =
  data_page :: int
  data_limit :: int
  data_total_records :: int
  data_records :: "'a list"

record 'a api_pagination_response =
  response_page :: int
  response_limit :: int
  response_total_pages :: int
  response_total_records :: int
  response_records :: "'a list"
  response_previous :: "string option"
  response_next :: "string option"

definition create_response ::
  "string \<Rightarrow> 'a api_pagination_data \<Rightarrow> py_exn + 'a api_pagination_response" where
  "create_response base_url api_pagination_data =
     (case get_total_pages (data_limit api_pagination_data)
             (data_total_records api_pagination_data) of
        Inl err \<Rightarrow> Inl err
      | Inr pages \<Rightarrow>
          Inr \<lparr> response_page = data_page api_pagination_data,
                response_limit = data_limit api_pagination_data,
                response_total_pages = pages,
                response_total_records = data_total_records api_pagination_data,
                response_records = data_records api_pagination_data,
                response_previous =
                  get_previous_page base_url (data_page api_pagination_data)
                    (data_limit api_pagination_data) (data_total_records api_pagination_data),
                response_next =
                  get_next_page base_url (data_page api_pagination_data)
                    (data_limit api_pagination_data) (data_total_records api_pagination_data) \<rparr>)"


section \<open>The data model: \<^verbatim>\<open>api/components/user/user_models.py\<close>\<close>

text \<open>Fields carry the name of their class in front: \<open>User_id\<close> is \<^verbatim>\<open>User.id\<close>.\<close>

record UserRequest =
  UserRequest_name :: string
  UserRequest_email :: string

record User =
  User_id :: "string option"
  User_name :: string
  User_email :: string
  User_created_at :: "datetime option"
  User_updated_at :: "datetime option"

record UserResponse =
  UserResponse_id :: string
  UserResponse_name :: string
  UserResponse_email :: string
  UserResponse_created_at :: datetime
  UserResponse_updated_at :: "datetime option"

text \<open>
  The fields of \<^verbatim>\<open>Detail\<close> (\<^verbatim>\<open>server_error.py\<close>) have the type
  \<^verbatim>\<open>Optional[UnknownType]\<close>. The values the code stores there are a text, an integer, a
  user, a dictionary, a list and an exception object.
\<close>

datatype unknown_type =
    UStr string
  | UInt int
  | UUser User
  | UDict "(string \<times> unknown_type) list"
  | UList "unknown_type list"
  | UException py_exn

record Detail =
  Detail_context :: "unknown_type option"
  Detail_cause :: "unknown_type option"

text \<open>
  Library functions that the operations are stated over: \<^verbatim>\<open>datetime.astimezone()\<close> (it
  depends on the time zone of the host and raises outside the range of years it supports),
  the conversion of a text to a \<^verbatim>\<open>datetime\<close> that the validation of a model field applies,
  the constructor \<^verbatim>\<open>uuid.UUID(hex)\<close>, and the text that \<^verbatim>\<open>str\<close> gives for a value that is
  not itself a text. The constructor is modelled further down (\<open>UUID_init\<close>), and the
  examples run with it.
\<close>

record pylib =
  astimezone :: "datetime \<Rightarrow> py_exn + datetime"
  datetime_of_str :: "string \<Rightarrow> datetime option"
  UUID :: "string \<Rightarrow> py_exn + uuid"
  str_of :: "unknown_type \<Rightarrow> string"

text \<open>
  The two shapes of the argument \<^verbatim>\<open>raw: Any\<close> of the mapper: a dictionary (keys, no
  attributes of these names) and an object with attributes.
\<close>

datatype raw = Dict "string \<rightharpoonup> pyval" | Object "string \<rightharpoonup> pyval"

definition hasattr :: "raw \<Rightarrow> string \<Rightarrow> bool" where
  "hasattr obj attr = (case obj of Dict d \<Rightarrow> False | Object attrs \<Rightarrow> attrs attr \<noteq> None)"

definition getattr :: "raw \<Rightarrow> string \<Rightarrow> py_exn + pyval" where
  "getattr obj attr =
     (case obj of
        Dict d \<Rightarrow> Inl (AttributeError attr)
      | Object attrs \<Rightarrow>
          (case attrs attr of None \<Rightarrow> Inl (AttributeError attr) | Some v \<Rightarrow> Inr v))"

text \<open>The objects the mapper is handed: a validated request and a \<^verbatim>\<open>DictToObj\<close> wrapper.\<close>

definition UserRequest_object :: "UserRequest \<Rightarrow> raw" where
  "UserRequest_object user_request =
     Object [''name'' \<mapsto> PyStr (UserRequest_name user_request),
             ''email'' \<mapsto> PyStr (UserRequest_email user_request)]"

text \<open>\<^verbatim>\<open>api/utils/dict_to_obj.py\<close>: every key becomes an attribute, a UUID by its \<^verbatim>\<open>hex\<close>.\<close>

definition DictToObj :: "(string \<rightharpoonup> pyval) \<Rightarrow> raw" where
  "DictToObj input_dict =
     Object (\<lambda>key. case input_dict key of
                      None \<Rightarrow> None
                    | Some (PyUUID u) \<Rightarrow> Some (PyStr (hex u))
                    | Some v \<Rightarrow> Some v)"

subsection \<open>Validation of the fields of \<^verbatim>\<open>User\<close>\<close>

text \<open>
  What the model class does with the value given for a field of type \<^verbatim>\<open>str\<close>,
  \<^verbatim>\<open>str | None\<close> and \<^verbatim>\<open>datetime | None\<close>: the validated value, or \<open>None\<close> when the
  field refuses what it is given. One refusal makes the construction raise.
\<close>

definition validate_str :: "pyval \<Rightarrow> string option" where
  "validate_str v = (case v of PyStr s \<Rightarrow> Some s | _ \<Rightarrow> None)"

definition validate_optional_str :: "pyval \<Rightarrow> string option option" where
  "validate_optional_str v =
     (case v of PyNone \<Rightarrow> Some None | PyStr s \<Rightarrow> Some (Some s) | _ \<Rightarrow> None)"

definition validate_optional_datetime :: "pylib \<Rightarrow> pyval \<Rightarrow> datetime option option" where
  "validate_optional_datetime lib v =
     (case v of
        PyNone \<Rightarrow> Some None
      | PyDatetime d \<Rightarrow> Some (Some d)
      | PyStr s \<Rightarrow> (case datetime_of_str lib s of None \<Rightarrow> None | Some d \<Rightarrow> Some (Some d))
      | PyUUID u \<Rightarrow> None)"

definition User_init ::
  "pylib \<Rightarrow> pyval \<Rightarrow> pyval \<Rightarrow> pyval \<Rightarrow> pyval \<Rightarrow> pyval \<Rightarrow> py_exn + User" where
  "User_init lib id' name email created_at updated_at =
     (case (validate_optional_str id', validate_str name, validate_str email,
            validate_optional_datetime lib created_at,
            validate_optional_datetime lib updated_at) of
        (Some i, Some n, Some e, Some c, Some u) \<Rightarrow>
          Inr \<lparr> User_id = i, User_name = n, User_email = e,
                User_created_at = c, User_updated_at = u \<rparr>
      | _ \<Rightarrow> Inl (ValidationError ''User''))"

section \<open>The mapper: \<^verbatim>\<open>api/components/user/user_mapper.py\<close>\<close>

definition to_persistence :: "User \<Rightarrow> (string \<rightharpoonup> pyval)" where
  "to_persistence user =
     [''name'' \<mapsto> PyStr (User_name user), ''email'' \<mapsto> PyStr (User_email user)]"

text \<open>
  \<^verbatim>\<open>raw.id if hasattr(raw, "id") else None\<close> reads an attribute that is there;
  \<^verbatim>\<open>raw.name\<close> and \<^verbatim>\<open>raw.email\<close> raise when it is not.
\<close>

definition getattr_or_None :: "raw \<Rightarrow> string \<Rightarrow> py_exn + pyval" where
  "getattr_or_None obj attr = (if hasattr obj attr then getattr obj attr else Inr PyNone)"

definition to_domain :: "pylib \<Rightarrow> raw \<Rightarrow> py_exn + User" where
  "to_domain lib obj =
     (case getattr_or_None obj ''id'' of Inl err \<Rightarrow> Inl err | Inr id' \<Rightarrow>
      case getattr obj ''name'' of Inl err \<Rightarrow> Inl err | Inr name \<Rightarrow>
      case getattr obj ''email'' of Inl err \<Rightarrow> Inl err | Inr email \<Rightarrow>
      case getattr_or_None obj ''created_at'' of Inl err \<Rightarrow> Inl err | Inr created_at \<Rightarrow>
      case getattr_or_None obj ''updated_at'' of Inl err \<Rightarrow> Inl err | Inr updated_at \<Rightarrow>
        User_init lib id' name email created_at updated_at)"

text \<open>
  \<^verbatim>\<open>x.astimezone() if x else x\<close>: a \<^verbatim>\<open>datetime\<close> is always true, \<^verbatim>\<open>None\<close> is false.
\<close>

definition astimezone_if_set :: "pylib \<Rightarrow> datetime option \<Rightarrow> py_exn + datetime option" where
  "astimezone_if_set lib x =
     (case x of
        None \<Rightarrow> Inr None
      | Some d \<Rightarrow> (case astimezone lib d of Inl err \<Rightarrow> Inl err | Inr d' \<Rightarrow> Inr (Some d')))"

text \<open>
  \<^verbatim>\<open>UserResponse\<close> declares \<^verbatim>\<open>id: str\<close> and \<^verbatim>\<open>created_at: datetime\<close>: its validation
  refuses \<^verbatim>\<open>None\<close> for either.
\<close>

definition to_response :: "pylib \<Rightarrow> User \<Rightarrow> py_exn + UserResponse" where
  "to_response lib user =
     (case astimezone_if_set lib (User_created_at user) of Inl err \<Rightarrow> Inl err | Inr created_at \<Rightarrow>
      case astimezone_if_set lib (User_updated_at user) of Inl err \<Rightarrow> Inl err | Inr updated_at \<Rightarrow>
      case (User_id user, created_at) of
        (Some i, Some c) \<Rightarrow>
          Inr \<lparr> UserResponse_id = i, UserResponse_name = User_name user,
                UserResponse_email = User_email user,
                UserResponse_created_at = c, UserResponse_updated_at = updated_at \<rparr>
      | _ \<Rightarrow> Inl (ValidationError ''UserResponse''))"

section \<open>Errors: \<^verbatim>\<open>server_error.py\<close>\<close>

text \<open>
  The phrases of \<^verbatim>\<open>http.HTTPStatus\<close>. The base class \<^verbatim>\<open>HTTPException\<close> stores the phrase
  of the status code as its \<^verbatim>\<open>detail\<close> when it is given none, and \<^verbatim>\<open>HTTPStatus(code)\<close> raises
  \<^verbatim>\<open>ValueError\<close> for a code that is not in the table.
\<close>

definition HTTPStatus_phrase :: "int \<Rightarrow> string option" where
  "HTTPStatus_phrase = map_of
     [(100, ''Continue''), (101, ''Switching Protocols''), (102, ''Processing''),
      (103, ''Early Hints''),
      (200, ''OK''), (201, ''Created''), (202, ''Accepted''),
      (203, ''Non-Authoritative Information''), (204, ''No Content''),
      (205, ''Reset Content''), (206, ''Partial Content''), (207, ''Multi-Status''),
      (208, ''Already Reported''), (226, ''IM Used''),
      (300, ''Multiple Choices''), (301, ''Moved Permanently''), (302, ''Found''),
      (303, ''See Other''), (304, ''Not Modified''), (305, ''Use Proxy''),
      (307, ''Temporary Redirect''), (308, ''Permanent Redirect''),
      (400, ''Bad Request''), (401, ''Unauthorized''), (402, ''Payment Required''),
      (403, ''Forbidden''), (404, ''Not Found''), (405, ''Method Not Allowed''),
      (406, ''Not Acceptable''), (407, ''Proxy Authentication Required''),
      (408, ''Request Timeout''), (409, ''Conflict''), (410, ''Gone''),
      (411, ''Length Required''), (412, ''Precondition Failed''),
      (413, ''Request Entity Too Large''), (414, ''Request-URI Too Long''),
      (415, ''Unsupported Media Type''), (416, ''Requested Range Not Satisfiable''),
      (417, ''Expectation Failed''), (418, ''I'm a Teapot''),
      (421, ''Misdirected Request''), (422, ''Unprocessable Entity''), (423, ''Locked''),
      (424, ''Failed Dependency''), (425, ''Too Early''), (426, ''Upgrade Required''),
      (428, ''Precondition Required''), (429, ''Too Many Requests''),
      (431, ''Request Header Fields Too Large''), (451, ''Unavailable For Legal Reasons''),
      (500, ''Internal Server Error''), (501, ''Not Implemented''), (502, ''Bad Gateway''),
      (503, ''Service Unavailable''), (504, ''Gateway Timeout''),
      (505, ''HTTP Version Not Supported''), (506, ''Variant Also Negotiates''),
      (507, ''Insufficient Storage''), (508, ''Loop Detected''), (510, ''Not Extended''),
      (511, ''Network Authentication Required'')]"

text \<open>What the attribute \<^verbatim>\<open>detail\<close> of the exception holds: a \<^verbatim>\<open>Detail\<close> or a phrase.\<close>

datatype detail_attr = DetailObject Detail | Phrase string

definition HTTPException_init :: "int option \<Rightarrow> Detail option \<Rightarrow> py_exn + detail_attr" where
  "HTTPException_init status_code detail =
     (case detail of
        Some d \<Rightarrow> Inr (DetailObject d)
      | None \<Rightarrow>
          (case status_code of
             None \<Rightarrow> Inl (ValueError ''None is not a valid HTTPStatus'')
           | Some c \<Rightarrow>
               (case HTTPStatus_phrase c of
                  None \<Rightarrow> Inl (ValueError (str_int c @ '' is not a valid HTTPStatus''))
                | Some phrase \<Rightarrow> Inr (Phrase phrase))))"

record ServerError =
  ServerError_message :: string
  ServerError_status_code :: int
  ServerError_detail :: detail_attr
  ServerError_is_operational :: bool

definition startswith :: "string \<Rightarrow> string \<Rightarrow> bool" where
  "startswith s prefix = (take (length prefix) s = prefix)"

text \<open>\<^verbatim>\<open>f"{status_code}"\<close> of an optional integer.\<close>

definition format_status_code :: "int option \<Rightarrow> string" where
  "format_status_code status_code =
     (case status_code of None \<Rightarrow> ''None'' | Some c \<Rightarrow> str_int c)"

text \<open>
  \<^verbatim>\<open>ServerError.__init__\<close>. \<^verbatim>\<open>if status_code:\<close> is false for \<^verbatim>\<open>None\<close> and for zero.
\<close>

definition ServerError_init :: "string \<Rightarrow> int option \<Rightarrow> Detail option \<Rightarrow> py_exn + ServerError" where
  "ServerError_init message status_code detail =
     (case HTTPException_init status_code detail of
        Inl err \<Rightarrow> Inl err
      | Inr stored \<Rightarrow>
          Inr \<lparr> ServerError_message = message,
                ServerError_status_code =
                  (case status_code of
                     None \<Rightarrow> 500
                   | Some c \<Rightarrow> if c \<noteq> 0 then c else 500),
                ServerError_detail = stored,
                ServerError_is_operational =
                  (if startswith (format_status_code status_code) ''4'' then True else False) \<rparr>)"

text \<open>
  What a call raises: a \<^verbatim>\<open>ServerError\<close> or another exception. The statement
  \<^verbatim>\<open>raise ServerError(...)\<close> raises whatever the constructor raises when it fails.
\<close>

datatype exn = ServerErrorExn ServerError | OtherExn py_exn

definition raise_ServerError :: "string \<Rightarrow> int option \<Rightarrow> Detail option \<Rightarrow> exn" where
  "raise_ServerError message status_code detail =
     (case ServerError_init message status_code detail of
        Inl err \<Rightarrow> OtherExn err
      | Inr error \<Rightarrow> ServerErrorExn error)"

definition HTTP_404_NOT_FOUND :: int where "HTTP_404_NOT_FOUND = 404"
definition HTTP_422_UNPROCESSABLE_ENTITY :: int where "HTTP_422_UNPROCESSABLE_ENTITY = 422"
definition HTTP_500_INTERNAL_SERVER_ERROR :: int where "HTTP_500_INTERNAL_SERVER_ERROR = 500"

section \<open>Error responses: \<^verbatim>\<open>api/utils/api_error_handler.py\<close> and \<^verbatim>\<open>server.py\<close>\<close>

record APIErrorResponse =
  APIErrorResponse_message :: string
  APIErrorResponse_detail :: "Detail option"
  APIErrorResponse_is_operational :: bool

text \<open>
  A \<^verbatim>\<open>JSONResponse\<close> by its content and its status code. Every handler writes
  \<^verbatim>\<open>JSONResponse(content=APIErrorResponse(...).model_dump(), status_code=...)\<close>: the two
  arguments are evaluated from left to right, and the constructor then renders the content
  with \<^verbatim>\<open>json.dumps\<close>.

  \<^verbatim>\<open>model_dump()\<close> turns a \<^verbatim>\<open>User\<close> inside a \<^verbatim>\<open>Detail\<close> into the dictionary of its fields
  and leaves a \<^verbatim>\<open>datetime\<close> and an exception object as they are; \<^verbatim>\<open>json.dumps\<close> raises
  \<^verbatim>\<open>TypeError\<close> at the first value it cannot encode, naming its class. \<open>json_obstacle v\<close> is
  that class, if there is one in \<open>v\<close>.
\<close>

record JSONResponse =
  JSONResponse_content :: APIErrorResponse
  JSONResponse_status_code :: int

fun first_some :: "'a option list \<Rightarrow> 'a option" where
  "first_some [] = None"
| "first_some (None # xs) = first_some xs"
| "first_some (Some x # xs) = Some x"

primrec json_obstacle :: "unknown_type \<Rightarrow> string option" where
  "json_obstacle (UStr s) = None"
| "json_obstacle (UInt i) = None"
| "json_obstacle (UUser user) =
     (if User_created_at user \<noteq> None \<or> User_updated_at user \<noteq> None
      then Some ''datetime'' else None)"
| "json_obstacle (UDict items) = first_some (map snd (map (map_prod id json_obstacle) items))"
| "json_obstacle (UList values) = first_some (map json_obstacle values)"
| "json_obstacle (UException err) = Some (exn_class err)"

definition json_obstacle_opt :: "unknown_type option \<Rightarrow> string option" where
  "json_obstacle_opt x = (case x of None \<Rightarrow> None | Some v \<Rightarrow> json_obstacle v)"

definition render :: "APIErrorResponse \<Rightarrow> py_exn option" where
  "render content =
     (case APIErrorResponse_detail content of
        None \<Rightarrow> None
      | Some detail \<Rightarrow>
          (case first_some [json_obstacle_opt (Detail_context detail),
                            json_obstacle_opt (Detail_cause detail)] of
             None \<Rightarrow> None
           | Some cls \<Rightarrow>
               Some (TypeError (''Object of type '' @ cls @ '' is not JSON serializable''))))"

definition JSONResponse_init :: "APIErrorResponse \<Rightarrow> int \<Rightarrow> py_exn + JSONResponse" where
  "JSONResponse_init content status_code =
     (case render content of
        Some err \<Rightarrow> Inl err
      | None \<Rightarrow>
          Inr \<lparr> JSONResponse_content = content, JSONResponse_status_code = status_code \<rparr>)"

record RequestValidationError =
  RequestValidationError_body :: "unknown_type option"
  RequestValidationError_errors :: unknown_type

definition handle_request_validation_error ::
  "RequestValidationError \<Rightarrow> py_exn + JSONResponse" where
  "handle_request_validation_error error =
     JSONResponse_init
       \<lparr> APIErrorResponse_message = ''Validation failed'',
         APIErrorResponse_detail =
           Some \<lparr> Detail_context = RequestValidationError_body error,
                  Detail_cause = Some (RequestValidationError_errors error) \<rparr>,
         APIErrorResponse_is_operational = True \<rparr>
       HTTP_422_UNPROCESSABLE_ENTITY"

text \<open>
  \<^verbatim>\<open>APIErrorResponse\<close> declares \<^verbatim>\<open>detail: Detail | None\<close>: the phrase that a \<^verbatim>\<open>ServerError\<close>
  built without a \<^verbatim>\<open>Detail\<close> carries is refused by the validation.
\<close>

definition handle_server_error :: "ServerError \<Rightarrow> py_exn + JSONResponse" where
  "handle_server_error error =
     (case ServerError_detail error of
        Phrase phrase \<Rightarrow> Inl (ValidationError ''APIErrorResponse'')
      | DetailObject detail \<Rightarrow>
          JSONResponse_init
            \<lparr> APIErrorResponse_message = ServerError_message error,
              APIErrorResponse_detail = Some detail,
              APIErrorResponse_is_operational = ServerError_is_operational error \<rparr>
            (ServerError_status_code error))"

text \<open>
  \<^verbatim>\<open>handle_common_error\<close> evaluates, in this order: \<^verbatim>\<open>error.args[0]\<close>, which raises
  \<^verbatim>\<open>IndexError\<close> on an empty tuple; the construction of the body, whose field
  \<^verbatim>\<open>message: str\<close> refuses a value that is not a text; \<^verbatim>\<open>error.status_code\<close>, which raises
  \<^verbatim>\<open>AttributeError\<close> for an exception without that attribute; and the construction of
  the response, which renders a body whose cause is the exception object itself.
\<close>

definition handle_common_error :: "py_exn \<Rightarrow> py_exn + JSONResponse" where
  "handle_common_error error =
     (case exn_args error of
        [] \<Rightarrow> Inl (IndexError ''tuple index out of range'')
      | arg # args \<Rightarrow>
          (case validate_str arg of
             None \<Rightarrow> Inl (ValidationError ''APIErrorResponse'')
           | Some message \<Rightarrow>
               (case exn_status_code error of
                  None \<Rightarrow> Inl (AttributeError ''status_code'')
                | Some status_code \<Rightarrow>
                    JSONResponse_init
                      \<lparr> APIErrorResponse_message = message,
                        APIErrorResponse_detail =
                          Some \<lparr> Detail_context = None,
                                 Detail_cause = Some (UException error) \<rparr>,
                        APIErrorResponse_is_operational = False \<rparr>
                      status_code)))"

text \<open>
  The table \<^verbatim>\<open>exception_handlers\<close> of \<^verbatim>\<open>server.py\<close>: the handler of an exception is the
  one registered for its class, and the one registered for \<^verbatim>\<open>Exception\<close> takes every
  exception that is neither a \<^verbatim>\<open>RequestValidationError\<close> nor a \<^verbatim>\<open>ServerError\<close>.
\<close>

datatype raised =
    RaisedRequestValidationError RequestValidationError
  | RaisedServerError ServerError
  | RaisedException py_exn

definition exception_handlers :: "raised \<Rightarrow> py_exn + JSONResponse" where
  "exception_handlers exc =
     (case exc of
        RaisedRequestValidationError error \<Rightarrow> handle_request_validation_error error
      | RaisedServerError error \<Rightarrow> handle_server_error error
      | RaisedException error \<Rightarrow> handle_common_error error)"

section \<open>The database: \<^verbatim>\<open>services/db_service.py\<close> and the storage rows\<close>

text \<open>
  A row of the table \<^verbatim>\<open>users\<close> (\<^verbatim>\<open>db/models/user.py\<close>, \<^verbatim>\<open>db/models/default.py\<close>) and the
  dictionary that \<^verbatim>\<open>_asdict()\<close> gives for it.
\<close>

record UserModel =
  UserModel_id :: uuid
  UserModel_name :: string
  UserModel_email :: string
  UserModel_created_at :: datetime
  UserModel_updated_at :: "datetime option"

definition asdict :: "UserModel \<Rightarrow> (string \<rightharpoonup> pyval)" where
  "asdict row =
     [''id'' \<mapsto> PyUUID (UserModel_id row),
      ''name'' \<mapsto> PyStr (UserModel_name row),
      ''email'' \<mapsto> PyStr (UserModel_email row),
      ''created_at'' \<mapsto> PyDatetime (UserModel_created_at row),
      ''updated_at'' \<mapsto>
        (case UserModel_updated_at row of None \<Rightarrow> PyNone | Some d \<Rightarrow> PyDatetime d)]"

text \<open>
  The statements the repository sends, and what the driver reports for one: the number of
  rows affected and the first row, if there is one.
\<close>

datatype query =
    Insert "string \<rightharpoonup> pyval"
  | Select uuid
  | Update uuid string string
  | Delete uuid

record cursor_result =
  rowcount :: int
  first :: "(string \<rightharpoonup> pyval) option"

text \<open>
  The state of the database service and the outcomes of the calls on a connection, as a
  repository operation meets them: whether the engine is set, whether acquiring the
  connection raises, what \<^verbatim>\<open>execute\<close> gives for a statement, and whether \<^verbatim>\<open>commit\<close> and
  \<^verbatim>\<open>rollback\<close> raise. The release of the connection at the end of the block is taken to
  succeed, and logging is left out.
\<close>

record db =
  async_engine_set :: bool
  connect :: "py_exn option"
  execute :: "query \<Rightarrow> py_exn + cursor_result"
  commit :: "py_exn option"
  rollback :: "py_exn option"

text \<open>The property \<^verbatim>\<open>DBService.async_engine\<close>.\<close>

definition async_engine :: "db \<Rightarrow> exn + unit" where
  "async_engine db_service =
     (if async_engine_set db_service then Inr ()
      else Inl (raise_ServerError ''Async engine is None!''
                  (Some HTTP_500_INTERNAL_SERVER_ERROR) None))"

section \<open>The repository: \<^verbatim>\<open>api/components/user/user_repository.py\<close>\<close>

text \<open>
  The operations on one user are modelled; \<^verbatim>\<open>read_and_count_users\<close>, the listing with its
  count, is not.

  \<^verbatim>\<open>async with self.db_service.async_engine.connect() as conn:\<close> stands outside the
  \<^verbatim>\<open>try\<close>: what it raises leaves the operation as it is.
\<close>

definition with_connection :: "db \<Rightarrow> (exn + 'a) \<Rightarrow> exn + 'a" where
  "with_connection db_service block =
     (case async_engine db_service of
        Inl err \<Rightarrow> Inl err
      | Inr engine \<Rightarrow>
          (case connect db_service of
             Some err \<Rightarrow> Inl (OtherExn err)
           | None \<Rightarrow> block))"

text \<open>
  The clause \<^verbatim>\<open>except Exception as err\<close> of every operation: roll back, then raise a
  \<^verbatim>\<open>ServerError\<close> with status 500 whose cause is the text of \<^verbatim>\<open>err.__cause__\<close>.
\<close>

definition except_clause :: "db \<Rightarrow> string \<Rightarrow> unknown_type option \<Rightarrow> py_exn \<Rightarrow> exn" where
  "except_clause db_service message context err =
     (case rollback db_service of
        Some rollback_err \<Rightarrow> OtherExn rollback_err
      | None \<Rightarrow>
          raise_ServerError message (Some HTTP_500_INTERNAL_SERVER_ERROR)
            (Some \<lparr> Detail_context = context,
                    Detail_cause = Some (UStr (exn_cause err)) \<rparr>))"

definition try_except ::
  "db \<Rightarrow> string \<Rightarrow> unknown_type option \<Rightarrow> (py_exn + 'a) \<Rightarrow> exn + 'a" where
  "try_except db_service message context body =
     (case body of
        Inl err \<Rightarrow> Inl (except_clause db_service message context err)
      | Inr result \<Rightarrow> Inr result)"

text \<open>
  The lines \<^verbatim>\<open>obj = DictToObj(result.first()._asdict())\<close>, \<^verbatim>\<open>await conn.commit()\<close> and
  \<^verbatim>\<open>return UserMapper.to_domain(obj)\<close>, which every operation ends with.
\<close>

definition first_to_domain :: "db \<Rightarrow> pylib \<Rightarrow> cursor_result \<Rightarrow> py_exn + User" where
  "first_to_domain db_service lib result =
     (case first result of
        None \<Rightarrow> Inl (AttributeError ''_asdict'')
      | Some row \<Rightarrow>
          (let obj = DictToObj row
           in case commit db_service of
                Some err \<Rightarrow> Inl err
              | None \<Rightarrow> to_domain lib obj))"

definition some_user :: "py_exn + User \<Rightarrow> py_exn + User option" where
  "some_user result = (case result of Inl err \<Rightarrow> Inl err | Inr user \<Rightarrow> Inr (Some user))"

definition create_user :: "db \<Rightarrow> pylib \<Rightarrow> User \<Rightarrow> exn + User" where
  "create_user db_service lib user =
     with_connection db_service
       (try_except db_service ''An error occurred when creating a user into database''
          (Some (UUser user))
          (let raw_user_data = to_persistence user
           in case execute db_service (Insert raw_user_data) of
                Inl err \<Rightarrow> Inl err
              | Inr result \<Rightarrow> first_to_domain db_service lib result))"

definition read_user :: "db \<Rightarrow> pylib \<Rightarrow> string \<Rightarrow> exn + User option" where
  "read_user db_service lib user_id =
     with_connection db_service
       (try_except db_service ''An error occurred when reading a user from database''
          (Some (UStr user_id))
          (case UUID lib user_id of
             Inl err \<Rightarrow> Inl err
           | Inr u \<Rightarrow>
               (case execute db_service (Select u) of
                  Inl err \<Rightarrow> Inl err
                | Inr result \<Rightarrow>
                    if rowcount result = 0 then Inr None
                    else some_user (first_to_domain db_service lib result))))"

definition update_user :: "db \<Rightarrow> pylib \<Rightarrow> string \<Rightarrow> User \<Rightarrow> exn + User option" where
  "update_user db_service lib user_id user =
     with_connection db_service
       (try_except db_service ''An error occurred when updating a user from database''
          (Some (UDict [(''user_id'', UStr user_id), (''user'', UUser user)]))
          (case UUID lib user_id of
             Inl err \<Rightarrow> Inl err
           | Inr u \<Rightarrow>
               (case execute db_service (Update u (User_name user) (User_email user)) of
                  Inl err \<Rightarrow> Inl err
                | Inr result \<Rightarrow>
                    if rowcount result = 0 then Inr None
                    else some_user (first_to_domain db_service lib result))))"

definition delete_user :: "db \<Rightarrow> pylib \<Rightarrow> string \<Rightarrow> exn + User option" where
  "delete_user db_service lib user_id =
     with_connection db_service
       (try_except db_service ''An error occurred when deleting a user from database''
          (Some (UStr user_id))
          (case UUID lib user_id of
             Inl err \<Rightarrow> Inl err
           | Inr u \<Rightarrow>
               (case execute db_service (Delete u) of
                  Inl err \<Rightarrow> Inl err
                | Inr result \<Rightarrow>
                    if rowcount result = 0 then Inr None
                    else some_user (first_to_domain db_service lib result))))"

section \<open>The service: \<^verbatim>\<open>api/components/user/user_service.py\<close>\<close>

text \<open>
  The service holds a repository and calls its methods; the tests replace them by others.
  \<open>IUserRepository\<close> is the object the service holds, \<open>UserRepository\<close> the one that the
  operations above make over a database.
\<close>

record IUserRepository =
  IUserRepository_create_user :: "User \<Rightarrow> exn + User option"
  IUserRepository_read_user :: "string \<Rightarrow> exn + User option"
  IUserRepository_update_user :: "string \<Rightarrow> User \<Rightarrow> exn + User option"
  IUserRepository_delete_user :: "string \<Rightarrow> exn + User option"

definition UserRepository :: "db \<Rightarrow> pylib \<Rightarrow> IUserRepository" where
  "UserRepository db_service lib =
     \<lparr> IUserRepository_create_user =
         (\<lambda>user. case create_user db_service lib user of
                    Inl err \<Rightarrow> Inl err
                  | Inr new_user \<Rightarrow> Inr (Some new_user)),
       IUserRepository_read_user = read_user db_service lib,
       IUserRepository_update_user = update_user db_service lib,
       IUserRepository_delete_user = delete_user db_service lib \<rparr>"

text \<open>\<^verbatim>\<open>str(x)\<close> of a value of \<^verbatim>\<open>Optional[UnknownType]\<close>.\<close>

definition py_str :: "pylib \<Rightarrow> unknown_type option \<Rightarrow> string" where
  "py_str lib x =
     (case x of
        None \<Rightarrow> ''None''
      | Some (UStr s) \<Rightarrow> s
      | Some v \<Rightarrow> str_of lib v)"

text \<open>
  \<^verbatim>\<open>str(err.detail.cause) if isinstance(err, ServerError) else str(err)\<close>. The attribute
  \<^verbatim>\<open>detail\<close> of a \<^verbatim>\<open>ServerError\<close> built without a \<^verbatim>\<open>Detail\<close> is a phrase, a text, and a
  text has no attribute \<^verbatim>\<open>cause\<close>.
\<close>

definition cause_of :: "pylib \<Rightarrow> exn \<Rightarrow> py_exn + string" where
  "cause_of lib err =
     (case err of
        ServerErrorExn error \<Rightarrow>
          (case ServerError_detail error of
             DetailObject detail \<Rightarrow> Inr (py_str lib (Detail_cause detail))
           | Phrase phrase \<Rightarrow> Inl (AttributeError ''cause''))
      | OtherExn e \<Rightarrow> Inr (exn_str e))"

text \<open>The clause \<^verbatim>\<open>except Exception as err\<close> of every service operation.\<close>

definition service_except :: "pylib \<Rightarrow> string \<Rightarrow> unknown_type option \<Rightarrow> exn \<Rightarrow> exn" where
  "service_except lib message context err =
     (case cause_of lib err of
        Inl attribute_err \<Rightarrow> OtherExn attribute_err
      | Inr cause \<Rightarrow>
          raise_ServerError message (Some HTTP_500_INTERNAL_SERVER_ERROR)
            (Some \<lparr> Detail_context = context, Detail_cause = Some (UStr cause) \<rparr>))"

definition register_user :: "pylib \<Rightarrow> IUserRepository \<Rightarrow> User \<Rightarrow> exn + User" where
  "register_user lib user_repository user =
     (case IUserRepository_create_user user_repository user of
        Inl err \<Rightarrow>
          Inl (service_except lib ''An error occurred when creating a user''
                 (Some (UUser user)) err)
      | Inr None \<Rightarrow>
          Inl (raise_ServerError ''User could not be created''
                 (Some HTTP_500_INTERNAL_SERVER_ERROR)
                 (Some \<lparr> Detail_context = Some (UUser user), Detail_cause = None \<rparr>))
      | Inr (Some new_user) \<Rightarrow> Inr new_user)"

definition retrieve_user :: "pylib \<Rightarrow> IUserRepository \<Rightarrow> string \<Rightarrow> exn + User" where
  "retrieve_user lib user_repository user_id =
     (case IUserRepository_read_user user_repository user_id of
        Inl err \<Rightarrow>
          Inl (service_except lib ''An error occurred when reading a user''
                 (Some (UStr user_id)) err)
      | Inr None \<Rightarrow>
          Inl (raise_ServerError ''User could not be read'' (Some HTTP_404_NOT_FOUND)
                 (Some \<lparr> Detail_context = Some (UStr user_id), Detail_cause = None \<rparr>))
      | Inr (Some user) \<Rightarrow> Inr user)"

definition replace_user :: "pylib \<Rightarrow> IUserRepository \<Rightarrow> string \<Rightarrow> User \<Rightarrow> exn + User" where
  "replace_user lib user_repository user_id user =
     (case IUserRepository_update_user user_repository user_id user of
        Inl err \<Rightarrow>
          Inl (service_except lib ''An error occurred when updating a user''
                 (Some (UDict [(''user_id'', UStr user_id), (''user'', UUser user)])) err)
      | Inr None \<Rightarrow>
          Inl (raise_ServerError ''User could not be updated'' (Some HTTP_404_NOT_FOUND)
                 (Some \<lparr> Detail_context =
                          Some (UDict [(''user_id'', UStr user_id), (''user'', UUser user)]),
                        Detail_cause = None \<rparr>))
      | Inr (Some updated_user) \<Rightarrow> Inr updated_user)"

definition remove_user :: "pylib \<Rightarrow> IUserRepository \<Rightarrow> string \<Rightarrow> exn + User" where
  "remove_user lib user_repository user_id =
     (case IUserRepository_delete_user user_repository user_id of
        Inl err \<Rightarrow>
          Inl (service_except lib ''An error occurred when deleting a user''
                 (Some (UStr user_id)) err)
      | Inr None \<Rightarrow>
          Inl (raise_ServerError ''User could not be removed'' (Some HTTP_404_NOT_FOUND)
                 (Some \<lparr> Detail_context = Some (UStr user_id), Detail_cause = None \<rparr>))
      | Inr (Some user) \<Rightarrow> Inr user)"

section \<open>The constructor \<^verbatim>\<open>uuid.UUID(hex)\<close> of the standard library\<close>

text \<open>
  The repository hands the identifier of a request to \<^verbatim>\<open>UUID\<close> as it is received. The
  constructor removes every \<^verbatim>\<open>urn:\<close> and \<^verbatim>\<open>uuid:\<close>, strips braces from both ends, removes
  every hyphen, asks for 32 characters and reads them with \<^verbatim>\<open>int(hex, 16)\<close>.

  \<^verbatim>\<open>s.replace(old, '')\<close> removes the occurrences of \<open>old\<close> from the left, none overlapping
  another; \<^verbatim>\<open>s.strip(chars)\<close> drops the characters of \<open>chars\<close> from both ends.
\<close>

fun str_remove :: "string \<Rightarrow> string \<Rightarrow> string" where
  "str_remove old [] = []"
| "str_remove old (c # cs) =
     (if old \<noteq> [] \<and> take (length old) (c # cs) = old
        then str_remove old (drop (length old) (c # cs))
      else c # str_remove old cs)"

definition str_strip :: "string \<Rightarrow> string \<Rightarrow> string" where
  "str_strip chars s =
     rev (dropWhile (\<lambda>c. c \<in> set chars) (rev (dropWhile (\<lambda>c. c \<in> set chars) s)))"

text \<open>
  \<^verbatim>\<open>int(s, 16)\<close> reads: white space, an optional sign, an optional \<^verbatim>\<open>0x\<close> or \<^verbatim>\<open>0X\<close> with
  one underscore allowed behind it, hexadecimal digits with single underscores between
  them, and white space. Among the first 256 code points the white space is the six ASCII
  ones, \<^verbatim>\<open>\x85\<close> and \<^verbatim>\<open>\xa0\<close>, and the digits are the ASCII ones.
\<close>

definition py_isspace :: "char \<Rightarrow> bool" where
  "py_isspace c =
     (c \<in> set [CHR 0x09, CHR 0x0A, CHR 0x0B, CHR 0x0C, CHR 0x0D, CHR 0x20, CHR 0x85, CHR 0xA0])"

definition digit_value :: "char \<Rightarrow> int option" where
  "digit_value c = map_of (zip ''0123456789abcdefABCDEF'' ([0..15] @ [10..15])) c"

definition digit_or_underscore :: "char \<Rightarrow> bool" where
  "digit_or_underscore c = (digit_value c \<noteq> None \<or> c = CHR ''_'')"

definition skip_sign :: "string \<Rightarrow> int \<times> string" where
  "skip_sign s =
     (case s of
        [] \<Rightarrow> (1, s)
      | c # cs \<Rightarrow> if c = CHR ''+'' then (1, cs) else if c = CHR ''-'' then (- 1, cs) else (1, s))"

definition skip_0x :: "string \<Rightarrow> string" where
  "skip_0x s =
     (case s of
        a # b # cs \<Rightarrow>
          if a = CHR ''0'' \<and> (b = CHR ''x'' \<or> b = CHR ''X'')
          then (case cs of [] \<Rightarrow> cs | u # cs' \<Rightarrow> if u = CHR ''_'' then cs' else cs)
          else s
      | _ \<Rightarrow> s)"

definition well_grouped :: "string \<Rightarrow> bool" where
  "well_grouped body =
     (body \<noteq> [] \<and> hd body \<noteq> CHR ''_'' \<and> last body \<noteq> CHR ''_''
      \<and> \<not> str_contains ''__'' body)"

definition hex_value :: "string \<Rightarrow> int" where
  "hex_value body =
     foldl (\<lambda>acc c. case digit_value c of None \<Rightarrow> acc | Some d \<Rightarrow> 16 * acc + d) 0 body"

definition int_16 :: "string \<Rightarrow> int option" where
  "int_16 s =
     (let (sign, s') = skip_sign (dropWhile py_isspace s);
          digits = skip_0x s';
          body = takeWhile digit_or_underscore digits;
          rest = dropWhile digit_or_underscore digits
      in if well_grouped body \<and> dropWhile py_isspace rest = []
         then Some (sign * hex_value body) else None)"

text \<open>
  \<^verbatim>\<open>repr\<close> of a text, which the message of a refused literal quotes: in single quotes,
  or in double quotes when the text holds a single quote and no double one; the quote and
  the backslash escaped, and what is not printable written \<^verbatim>\<open>\t\<close>, \<^verbatim>\<open>\n\<close>, \<^verbatim>\<open>\r\<close> or
  \<^verbatim>\<open>\xhh\<close>.
\<close>

definition hex_char :: "int \<Rightarrow> char" where
  "hex_char d = ''0123456789abcdef'' ! nat d"

definition isprintable :: "char \<Rightarrow> bool" where
  "isprintable c =
     (let n = (of_char c :: nat)
      in (32 \<le> n \<and> n \<le> 126) \<or> (161 \<le> n \<and> n \<noteq> 173))"

definition repr_char :: "char \<Rightarrow> char \<Rightarrow> string" where
  "repr_char quote c =
     (if c = quote \<or> c = CHR 0x5C then [CHR 0x5C, c]
      else if c = CHR 0x09 then [CHR 0x5C, CHR ''t'']
      else if c = CHR 0x0A then [CHR 0x5C, CHR ''n'']
      else if c = CHR 0x0D then [CHR 0x5C, CHR ''r'']
      else if isprintable c then [c]
      else [CHR 0x5C, CHR ''x'', hex_char (of_char c div 16), hex_char (of_char c mod 16)])"

definition repr :: "string \<Rightarrow> string" where
  "repr s =
     (let quote = (if CHR 0x27 \<in> set s \<and> CHR 0x22 \<notin> set s then CHR 0x22 else CHR 0x27)
      in quote # concat (map (repr_char quote) s) @ [quote])"

text \<open>\<^verbatim>\<open>'%032x' % int\<close>, the attribute \<^verbatim>\<open>hex\<close>, for a value below \<open>2 ^ 128\<close>.\<close>

function format_hex :: "nat \<Rightarrow> int \<Rightarrow> string" where
  "format_hex width n =
     (if width = 0 then [] else format_hex (width - 1) (n div 16) @ [hex_char (n mod 16)])"
  by pat_completeness auto
termination
  by (relation "measure fst") auto

declare format_hex.simps [simp del]

definition UUID_init :: "string \<Rightarrow> py_exn + uuid" where
  "UUID_init hex_arg =
     (let h = str_remove ''uuid:'' (str_remove ''urn:'' hex_arg);
          h' = filter (\<lambda>c. c \<noteq> CHR ''-'') (str_strip ''{}'' h)
      in if length h' \<noteq> 32
         then Inl (ValueError ''badly formed hexadecimal UUID string'')
         else (case int_16 h' of
                 None \<Rightarrow>
                   Inl (ValueError (''invalid literal for int() with base 16: '' @ repr h'))
               | Some i \<Rightarrow>
                   if 0 \<le> i \<and> i < 2 ^ 128
                   then Inr (UUID_hex (format_hex 32 i))
                   else Inl (ValueError ''int is out of range (need a 128-bit value)'')))"

section \<open>Predicates of the statements\<close>

text \<open>
  \<open>carries_cause err\<close>: the exception is not a \<^verbatim>\<open>ServerError\<close>, or it is one that was built
  with a \<^verbatim>\<open>Detail\<close>, so that \<^verbatim>\<open>err.detail.cause\<close> can be read.
\<close>

definition carries_cause :: "exn \<Rightarrow> bool" where
  "carries_cause err =
     (case err of
        OtherExn e \<Rightarrow> True
      | ServerErrorExn error \<Rightarrow>
          (case ServerError_detail error of DetailObject d \<Rightarrow> True | Phrase p \<Rightarrow> False))"

text \<open>
  \<open>step_failed db_service lib user_id statement\<close>: a step of the operation on \<open>user_id\<close> that
  sends \<open>statement\<close> fails. The engine is not set, or the connection is not acquired, or the
  identifier does not parse, or the statement raises, or rows are affected and the first
  one cannot be fetched, committed or mapped.
\<close>

definition step_failed :: "db \<Rightarrow> pylib \<Rightarrow> string \<Rightarrow> (uuid \<Rightarrow> query) \<Rightarrow> bool" where
  "step_failed db_service lib user_id statement =
     (\<not> async_engine_set db_service
      \<or> connect db_service \<noteq> None
      \<or> (\<exists>e. UUID lib user_id = Inl e)
      \<or> (\<exists>u e. UUID lib user_id = Inr u \<and> execute db_service (statement u) = Inl e)
      \<or> (\<exists>u result e. UUID lib user_id = Inr u
            \<and> execute db_service (statement u) = Inr result
            \<and> rowcount result \<noteq> 0
            \<and> first_to_domain db_service lib result = Inl e))"

text \<open>
  The textual form of a UUID: 32 hexadecimal digits in five groups of 8, 4, 4, 4 and 12,
  with a hyphen between two groups. \<open>canonical_uuid s\<close> says that \<open>s\<close> has this form: with
  every hexadecimal digit replaced by \<^verbatim>\<open>0\<close> it is the text of the nil UUID.
\<close>

definition canonical_uuid :: "string \<Rightarrow> bool" where
  "canonical_uuid s =
     (map (\<lambda>c. if digit_value c \<noteq> None then CHR ''0'' else c) s
        = ''00000000-0000-0000-0000-000000000000'')"

section \<open>An environment for the examples\<close>

text \<open>
  A library with the constructor \<^verbatim>\<open>UUID\<close> modelled above, which moves every \<^verbatim>\<open>datetime\<close>
  to UTC, a database that answers every statement with a given result, and a stored user.
\<close>

definition example_uuid :: uuid where
  "example_uuid = UUID_hex ''3f2b8c1e9d4a4b7e8f0a1c2d3e4f5a6b''"

definition example_lib :: pylib where
  "example_lib =
     \<lparr> astimezone = (\<lambda>d. Inr (d \<lparr> utcoffset := Some 0 \<rparr>)),
       datetime_of_str = (\<lambda>s. None),
       UUID = UUID_init,
       str_of = (\<lambda>v. ''object'') \<rparr>"

definition example_db :: "(py_exn + cursor_result) \<Rightarrow> db" where
  "example_db outcome =
     \<lparr> async_engine_set = True, connect = None, execute = (\<lambda>q. outcome),
       commit = None, rollback = None \<rparr>"

definition example_user :: User where
  "example_user =
     \<lparr> User_id = None, User_name = ''alice'', User_email = ''a@x.com'',
       User_created_at = None, User_updated_at = None \<rparr>"

definition example_row :: UserModel where
  "example_row =
     \<lparr> UserModel_id = example_uuid, UserModel_name = ''alice'',
       UserModel_email = ''a@x.com'',
       UserModel_created_at = \<lparr> microseconds = 1700000000000000, utcoffset = Some 0 \<rparr>,
       UserModel_updated_at = None \<rparr>"

section \<open>Properties of the pagination calculator\<close>

subsection \<open>The quotient \<^verbatim>\<open>total_records / limit\<close> and its ceiling\<close>

lemma floor_log2_le_bitlen: "floor_log2 a b \<le> bitlen a - bitlen b"
  by (simp add: floor_log2_def Let_def)

lemma floor_log2_lower:
  assumes "0 < a" "0 < b"
  shows "b * 2 ^ nat (floor_log2 a b) \<le> a * 2 ^ nat (- floor_log2 a b)"
proof (cases "b * 2 ^ nat (bitlen a - bitlen b) \<le> a * 2 ^ nat (- (bitlen a - bitlen b))")
  case True
  then show ?thesis by (simp add: floor_log2_def Let_def)
next
  case False
  define d where "d = bitlen a - bitlen b"
  have e: "floor_log2 a b = d - 1" using False by (simp add: floor_log2_def Let_def d_def)
  have ba: "2 ^ nat (bitlen a - 1) \<le> a" using bitlen_bounds[OF assms(1)] by simp
  have bb: "b < 2 ^ nat (bitlen b)" using bitlen_bounds[OF assms(2)] by simp
  have la: "1 \<le> bitlen a" using assms(1) bitlen_eq_zero_iff[of a] bitlen_nonneg[of a] by linarith
  have lb: "1 \<le> bitlen b" using assms(2) bitlen_eq_zero_iff[of b] bitlen_nonneg[of b] by linarith
  show ?thesis
  proof (cases "1 \<le> d")
    case True
    have "b * 2 ^ nat (d - 1) \<le> 2 ^ nat (bitlen b) * 2 ^ nat (d - 1)"
      using bb by simp
    also have "\<dots> = 2 ^ (nat (bitlen b) + nat (d - 1))" by (simp add: power_add)
    also have "nat (bitlen b) + nat (d - 1) = nat (bitlen a - 1)"
      using True lb la by (simp add: d_def nat_add_distrib[symmetric])
    also have "2 ^ nat (bitlen a - 1) \<le> a" by (rule ba)
    finally show ?thesis using True e by simp
  next
    case False
    have "b \<le> 2 ^ nat (bitlen b)" using bb by simp
    also have "nat (bitlen b) = nat (bitlen a - 1) + nat (1 - d)"
      using False lb la by (simp add: d_def nat_add_distrib[symmetric])
    also have "(2::int) ^ (nat (bitlen a - 1) + nat (1 - d)) = 2 ^ nat (bitlen a - 1) * 2 ^ nat (1 - d)"
      by (simp add: power_add)
    also have "\<dots> \<le> a * 2 ^ nat (1 - d)" using ba by simp
    finally show ?thesis using False e by simp
  qed
qed

lemma bitlen_le_53: assumes "a < 2 ^ 53" shows "bitlen a \<le> 53"
  using assms by (simp add: bitlen_le_iff_power)

lemma round_half_even_cases:
  "round_half_even num den = num div den \<or> round_half_even num den = num div den + 1"
  by (simp add: round_half_even_def Let_def)

lemma round_half_even_up:
  "den < 2 * (num mod den) \<Longrightarrow> round_half_even num den = num div den + 1"
  by (simp add: round_half_even_def Let_def)

lemma round_half_even_exact:
  "0 < den \<Longrightarrow> num mod den = 0 \<Longrightarrow> round_half_even num den = num div den"
  by (simp add: round_half_even_def Let_def)

lemma ceil_div_unique:
  fixes m S z :: int
  assumes "0 < S" "(z - 1) * S < m" "m \<le> z * S"
  shows "- ((- m) div S) = z"
proof -
  have "- m = S * (- z) + (z * S - m)" by (simp add: algebra_simps)
  moreover have "0 \<le> z * S - m" using assms by simp
  moreover have "z * S - m < S" using assms by (simp add: algebra_simps)
  ultimately have "(- m) div S = - z" by (rule int_div_pos_eq)
  then show ?thesis by simp
qed

lemma round_ceiling_core:
  fixes a b :: int and s :: nat
  assumes a: "0 \<le> a" and b: "0 < b" and bs: "b < 2 ^ (s + 1)"
  shows "- ((- round_half_even (a * 2 ^ s) b) div 2 ^ s) = - ((- a) div b)"
proof -
  define S :: int where "S = 2 ^ s"
  define k where "k = a div b"
  define r0 where "r0 = a mod b"
  define q where "q = (a * S) div b"
  define r where "r = (a * S) mod b"
  define n where "n = round_half_even (a * S) b"
  have S: "0 < S" by (simp add: S_def)
  have bS: "b < 2 * S" using bs by (simp add: S_def)
  have a_eq: "a = k * b + r0" by (simp add: k_def r0_def)
  have r0: "0 \<le> r0" "r0 < b" using b by (simp_all add: r0_def)
  have aS_eq: "a * S = q * b + r" by (simp add: q_def r_def)
  have r: "0 \<le> r" "r < b" using b by (simp_all add: r_def)
  have n_cases: "n = q \<or> n = q + 1"
    unfolding n_def q_def by (rule round_half_even_cases)
  have q_lo: "k * S \<le> q"
  proof -
    have "k * S * b \<le> a * S" using a_eq r0 S by (simp add: algebra_simps)
    then have "(k * S * b) div b \<le> (a * S) div b" by (rule zdiv_mono1) (rule b)
    then show ?thesis using b by (simp add: q_def)
  qed
  show ?thesis
  proof (cases "r0 = 0")
    case True
    then have ak: "a = k * b" using a_eq by simp
    have "q = (b * (k * S)) div b" "r = (b * (k * S)) mod b"
      by (simp_all add: q_def r_def ak mult_ac)
    then have "q = k * S" "r = 0" using b by simp_all
    then have "n = k * S" using round_half_even_exact[of b "a * S"] b
      by (simp add: n_def q_def r_def)
    moreover have "- ((- a) div b) = k"
      by (rule ceil_div_unique[OF b]) (use ak b in \<open>simp_all add: algebra_simps\<close>)
    moreover have "- ((- (k * S)) div S) = k"
      by (rule ceil_div_unique[OF S]) (use S in \<open>simp_all add: algebra_simps\<close>)
    ultimately show ?thesis by (simp add: n_def S_def)
  next
    case False
    then have r0pos: "1 \<le> r0" using r0 by simp
    have ceil_a: "- ((- a) div b) = k + 1"
      by (rule ceil_div_unique[OF b]) (use a_eq r0 r0pos in \<open>simp_all add: algebra_simps\<close>)
    have upper: "n \<le> (k + 1) * S"
    proof -
      have "a * S < (k + 1) * S * b" using a_eq r0 S by (simp add: algebra_simps)
      then have "q * b < (k + 1) * S * b" using aS_eq r by linarith
      then have "q < (k + 1) * S" using b by (simp add: mult_less_cancel_right)
      then show ?thesis using n_cases by auto
    qed
    have lower: "k * S < n"
    proof (cases "k * S < q")
      case True
      then show ?thesis using n_cases by auto
    next
      case False
      then have qk: "q = k * S" using q_lo by simp
      then have rr: "r = r0 * S" using aS_eq a_eq by (simp add: algebra_simps)
      have "1 * S \<le> r0 * S" using r0pos S by (intro mult_right_mono) simp_all
      then have "b < 2 * r" using rr bS by simp
      then have "n = q + 1" unfolding n_def q_def r_def by (rule round_half_even_up)
      then show ?thesis using qk by simp
    qed
    have "- ((- n) div S) = k + 1"
      by (rule ceil_div_unique[OF S]) (use lower upper in simp_all)
    then show ?thesis using ceil_a by (simp add: n_def S_def)
  qed
qed

lemma true_divide_pos_ceil:
  assumes a: "0 < a" "a < 2 ^ 53" and b: "0 < b" "b < 2 ^ 1075"
  shows "\<exists>x. true_divide_pos a b = Inr x \<and> math_ceil x = - ((- a) div b)"
proof -
  define e where "e = floor_log2 a b"
  define p where "p = max (e - 52) (- 1074)"
  define s where "s = nat (- p)"
  define n where "n = round_half_even (a * 2 ^ nat (- p)) (b * 2 ^ nat p)"
  have le: "1 \<le> bitlen b" using b(1) bitlen_eq_zero_iff[of b] bitlen_nonneg[of b] by linarith
  have e52: "e \<le> 52"
    using floor_log2_le_bitlen[of a b] bitlen_le_53[OF a(2)] le by (simp add: e_def)
  then have p0: "p \<le> 0" by (simp add: p_def)
  then have ps: "p = - int s" "nat p = 0" by (simp_all add: s_def)
  have low: "b * 2 ^ nat e \<le> a * 2 ^ nat (- e)"
    unfolding e_def by (rule floor_log2_lower) (use a b in simp_all)
  have bs: "b < 2 ^ (s + 1)"
  proof (cases "- 1074 \<le> e - 52")
    case True
    then have s: "s = nat (52 - e)" by (simp add: s_def p_def)
    have "a * 2 ^ nat (- e) < 2 ^ 53 * 2 ^ nat (- e)" using a(2) by simp
    then have lt: "b * 2 ^ nat e < 2 ^ 53 * 2 ^ nat (- e)" using low by linarith
    show ?thesis
    proof (cases "0 \<le> e")
      case True
      then have "(53::nat) = (s + 1) + nat e" using e52 by (simp add: s)
      then have "(2::int) ^ 53 = 2 ^ (s + 1) * 2 ^ nat e" by (simp only: power_add)
      moreover have "b * 2 ^ nat e < 2 ^ 53" using lt True by simp
      ultimately have "b * 2 ^ nat e < 2 ^ (s + 1) * 2 ^ nat e" by (simp only:)
      then show ?thesis by (rule mult_right_less_imp_less) simp
    next
      case False
      then have "s + 1 = 53 + nat (- e)" by (simp add: s)
      then have "(2::int) ^ (s + 1) = 2 ^ 53 * 2 ^ nat (- e)" by (simp only: power_add)
      then show ?thesis using lt False by simp
    qed
  next
    case False
    then have "s = 1074" by (simp add: s_def p_def)
    then show ?thesis using b(2) by simp
  qed
  have "true_divide_pos a b = Inr (n, p)"
    using p0 by (simp add: true_divide_pos_def Let_def e_def[symmetric] p_def[symmetric] n_def)
  moreover have "math_ceil (n, p) = - ((- a) div b)"
  proof (cases "p = 0")
    case True
    then have "s = 0" by (simp add: s_def)
    then show ?thesis
      using round_ceiling_core[of a b 0] a b bs True by (simp add: math_ceil_def n_def)
  next
    case False
    then show ?thesis
      using round_ceiling_core[of a b s] a b bs p0
      by (simp add: math_ceil_def n_def ps)
  qed
  ultimately show ?thesis by blast
qed

lemma ceiling_as_div:
  fixes a b :: int
  assumes "0 < b"
  shows "\<lceil>real_of_int a / real_of_int b\<rceil> = - ((- a) div b)"
proof -
  have "- (real_of_int a / real_of_int b) = real_of_int (- a) / real_of_int b" by simp
  then have "\<lfloor>- (real_of_int a / real_of_int b)\<rfloor> = (- a) div b"
    by (simp only: floor_divide_of_int_eq)
  then show ?thesis by (simp only: ceiling_def)
qed

subsection \<open>The division gives the nearest double\<close>

text \<open>
  \<open>math_ceil\<close> is the ceiling of the number the pair stands for; \<open>floor_log2\<close> brackets the
  quotient between two powers of two; and the pair that \<open>true_divide_pos\<close> returns is
  within half a unit in the last place of the exact quotient, with a significand of at most
  53 bits that is normalised unless the exponent is the least one.
\<close>

lemma math_ceil_is_ceiling: "math_ceil f = \<lceil>float_value f\<rceil>"
proof (cases f)
  case (Pair m p)
  show ?thesis
  proof (cases "0 \<le> p")
    case True
    then have "2 powr real_of_int p = real_of_int (2 ^ nat p)"
      by (simp add: powr_realpow[symmetric])
    then have "float_value (m, p) = real_of_int (m * 2 ^ nat p)"
      by (simp add: float_value_def)
    then show ?thesis using Pair True by (simp only: ceiling_of_int math_ceil_def) simp
  next
    case False
    then have "2 powr real_of_int p = 1 / real_of_int (2 ^ nat (- p))"
      by (simp add: powr_realpow[symmetric] powr_minus_divide[symmetric])
    then have "float_value (m, p) = real_of_int m / real_of_int (2 ^ nat (- p))"
      by (simp add: float_value_def)
    moreover have "\<lceil>real_of_int m / real_of_int (2 ^ nat (- p))\<rceil> = - ((- m) div 2 ^ nat (- p))"
      by (rule ceiling_as_div) simp
    ultimately show ?thesis using Pair False by (simp add: math_ceil_def)
  qed
qed

lemma round_half_even_nearest:
  assumes "0 < den"
  shows "2 * \<bar>num - round_half_even num den * den\<bar> \<le> den"
proof -
  define q r where "q = num div den" and "r = num mod den"
  have eq: "num = q * den + r" by (simp add: q_def r_def)
  have r: "0 \<le> r" "r < den" using assms by (simp_all add: r_def)
  have "round_half_even num den = q \<and> 2 * r \<le> den
        \<or> round_half_even num den = q + 1 \<and> den \<le> 2 * r"
    by (auto simp add: round_half_even_def Let_def q_def r_def)
  then show ?thesis
  proof
    assume "round_half_even num den = q \<and> 2 * r \<le> den"
    then show ?thesis using eq r by simp
  next
    assume h: "round_half_even num den = q + 1 \<and> den \<le> 2 * r"
    then have "num - round_half_even num den * den = r - den"
      using eq by (simp add: algebra_simps)
    then show ?thesis using h r by simp
  qed
qed

lemma floor_log2_upper:
  assumes "0 < a" "0 < b"
  shows "a * 2 ^ nat (- (floor_log2 a b + 1)) < b * 2 ^ nat (floor_log2 a b + 1)"
proof (cases "b * 2 ^ nat (bitlen a - bitlen b) \<le> a * 2 ^ nat (- (bitlen a - bitlen b))")
  case False
  then show ?thesis by (simp add: floor_log2_def Let_def)
next
  case True
  define d where "d = bitlen a - bitlen b"
  have e: "floor_log2 a b = d" using True by (simp add: floor_log2_def Let_def d_def)
  have ba: "a < 2 ^ nat (bitlen a)" using bitlen_bounds[OF assms(1)] by simp
  have bb: "2 ^ nat (bitlen b - 1) \<le> b" using bitlen_bounds[OF assms(2)] by simp
  have la: "1 \<le> bitlen a" using assms(1) bitlen_eq_zero_iff[of a] bitlen_nonneg[of a] by linarith
  have lb: "1 \<le> bitlen b" using assms(2) bitlen_eq_zero_iff[of b] bitlen_nonneg[of b] by linarith
  show ?thesis
  proof (cases "0 \<le> d")
    case True
    have "nat (bitlen a) = nat (bitlen b - 1) + nat (d + 1)"
      using True la lb by (simp add: d_def nat_add_distrib[symmetric])
    then have "(2::int) ^ nat (bitlen a) = 2 ^ nat (bitlen b - 1) * 2 ^ nat (d + 1)"
      by (simp only: power_add)
    also have "\<dots> \<le> b * 2 ^ nat (d + 1)" using bb by simp
    finally have "a < b * 2 ^ nat (d + 1)" using ba by linarith
    then show ?thesis using True e by simp
  next
    case False
    have "a * 2 ^ nat (- (d + 1)) < 2 ^ nat (bitlen a) * 2 ^ nat (- (d + 1))"
      using ba by simp
    also have "\<dots> = 2 ^ (nat (bitlen a) + nat (- (d + 1)))" by (simp add: power_add)
    also have "nat (bitlen a) + nat (- (d + 1)) = nat (bitlen b - 1)"
      using False la lb by (simp add: d_def nat_add_distrib[symmetric])
    also have "2 ^ nat (bitlen b - 1) \<le> b" by (rule bb)
    finally show ?thesis using False e by simp
  qed
qed

lemma int_true_divide_examples:
  "int_true_divide 1 3 = Inr (6004799503160661, - 54)"
  "int_true_divide 5 2 = Inr (5629499534213120, - 51)"
  "int_true_divide 1 10 = Inr (7205759403792794, - 56)"
  "int_true_divide (- 7) 2 = Inr (- 7881299347898368, - 51)"
  "int_true_divide 0 (- 5) = Inr (0, 0)"
  "int_true_divide 1 0 = Inl ZeroDivisionError"
  "int_true_divide (2 ^ 1024) 1 = Inl OverflowError"
  "int_true_divide 1 (2 ^ 1074) = Inr (1, - 1074)"
  by code_simp+

lemma pow2_quotient:
  fixes a b :: int and k :: int
  assumes "0 < b"
  shows "real_of_int (a * 2 ^ nat (- k)) / real_of_int (b * 2 ^ nat k)
           = (real_of_int a / real_of_int b) * 2 powr (- real_of_int k)"
proof (cases "0 \<le> k")
  case True
  then have "2 powr (- real_of_int k) = 1 / 2 ^ nat k"
    by (simp add: powr_minus_divide powr_real_of_int)
  then show ?thesis using True by simp
next
  case False
  then have "2 powr (- real_of_int k) = 2 ^ nat (- k)"
    using powr_real_of_int[of 2 "- k"] by simp
  then show ?thesis using False by simp
qed

lemma floor_log2_real:
  assumes "0 < a" "0 < b"
  shows "2 powr real_of_int (floor_log2 a b) \<le> real_of_int a / real_of_int b"
    and "real_of_int a / real_of_int b < 2 powr real_of_int (floor_log2 a b + 1)"
proof -
  define e where "e = floor_log2 a b"
  have lo: "real_of_int (b * 2 ^ nat e) \<le> real_of_int (a * 2 ^ nat (- e))"
    unfolding e_def using floor_log2_lower[OF assms] by (simp only: of_int_le_iff)
  have "1 \<le> real_of_int (a * 2 ^ nat (- e)) / real_of_int (b * 2 ^ nat e)"
    using lo assms by (simp add: field_simps)
  then have "1 \<le> (real_of_int a / real_of_int b) * 2 powr (- real_of_int e)"
    using pow2_quotient[OF assms(2), of a e] by simp
  then have "2 powr real_of_int e * 1
               \<le> 2 powr real_of_int e * ((real_of_int a / real_of_int b) * 2 powr (- real_of_int e))"
    by (rule mult_left_mono) simp
  moreover have "2 powr real_of_int e * 2 powr (- real_of_int e) = 1"
    by (simp add: powr_add[symmetric])
  ultimately have "2 powr real_of_int e \<le> real_of_int a / real_of_int b"
    by (simp add: mult.left_commute)
  then show "2 powr real_of_int (floor_log2 a b) \<le> real_of_int a / real_of_int b"
    by (simp add: e_def)
  have up: "real_of_int (a * 2 ^ nat (- (e + 1))) < real_of_int (b * 2 ^ nat (e + 1))"
    unfolding e_def using floor_log2_upper[OF assms] by (simp only: of_int_less_iff)
  have "real_of_int (a * 2 ^ nat (- (e + 1))) / real_of_int (b * 2 ^ nat (e + 1)) < 1"
    using up assms by (simp add: field_simps)
  then have "(real_of_int a / real_of_int b) * 2 powr (- real_of_int (e + 1)) < 1"
    using pow2_quotient[OF assms(2), of a "e + 1"] by simp
  then have "2 powr real_of_int (e + 1)
                 * ((real_of_int a / real_of_int b) * 2 powr (- real_of_int (e + 1)))
               < 2 powr real_of_int (e + 1) * 1"
    by (rule mult_strict_left_mono) simp
  moreover have "2 powr real_of_int (e + 1) * 2 powr (- real_of_int (e + 1)) = 1"
    by (simp only: powr_add[symmetric]) simp
  ultimately have "real_of_int a / real_of_int b < 2 powr real_of_int (e + 1)"
    by (simp add: mult.left_commute)
  then show "real_of_int a / real_of_int b < 2 powr real_of_int (floor_log2 a b + 1)"
    by (simp add: e_def)
qed

lemma round_half_even_real:
  assumes "0 < den"
  shows "\<bar>real_of_int num / real_of_int den - real_of_int (round_half_even num den)\<bar> \<le> 1 / 2"
proof -
  have "real_of_int (2 * \<bar>num - round_half_even num den * den\<bar>) \<le> real_of_int den"
    using round_half_even_nearest[OF assms, of num] by (simp only: of_int_le_iff)
  then have "2 * \<bar>real_of_int num - real_of_int (round_half_even num den) * real_of_int den\<bar>
               \<le> real_of_int den"
    by simp
  moreover have "real_of_int num / real_of_int den - real_of_int (round_half_even num den)
       = (real_of_int num - real_of_int (round_half_even num den) * real_of_int den)
           / real_of_int den"
    using assms by (simp add: field_simps)
  ultimately show ?thesis using assms by (simp add: abs_divide field_simps)
qed

lemma true_divide_pos_nearest:
  assumes "0 < a" "0 < b" and res: "true_divide_pos a b = Inr (n, p)"
  shows "\<bar>float_value (n, p) - real_of_int a / real_of_int b\<bar> \<le> 2 powr (real_of_int p - 1)"
    and "0 \<le> n" and "n \<le> 2 ^ 53" and "p = - 1074 \<or> 2 ^ 52 \<le> n" and "- 1074 \<le> p" and "p \<le> 971"
proof -
  define e where "e = floor_log2 a b"
  define R where "R = real_of_int a / real_of_int b"
  define num den where "num = a * 2 ^ nat (- p)" and "den = b * 2 ^ nat p"
  have p: "p = max (e - 52) (- 1074)" and n: "n = round_half_even num den"
    and ov: "\<not> (971 < p \<or> (p = 971 \<and> n = 2 ^ 53))"
    using res by (auto simp add: true_divide_pos_def Let_def e_def num_def den_def split: if_splits)
  show "- 1074 \<le> p" using p by simp
  show "p \<le> 971" using ov by simp
  have den: "0 < den" using assms by (simp add: den_def)
  have Rpos: "0 < R" using assms by (simp add: R_def)
  have q: "real_of_int num / real_of_int den = R * 2 powr (- real_of_int p)"
    unfolding num_def den_def R_def by (rule pow2_quotient) (rule assms)
  have near: "\<bar>R * 2 powr (- real_of_int p) - real_of_int n\<bar> \<le> 1 / 2"
    using round_half_even_real[OF den, of num] by (simp add: q n)
  have "float_value (n, p) - R = (real_of_int n - R * 2 powr (- real_of_int p)) * 2 powr real_of_int p"
    by (simp add: float_value_def algebra_simps powr_add[symmetric])
  then have "\<bar>float_value (n, p) - R\<bar>
               = \<bar>R * 2 powr (- real_of_int p) - real_of_int n\<bar> * 2 powr real_of_int p"
    by (simp add: abs_mult abs_minus_commute)
  also have "\<dots> \<le> (1 / 2) * 2 powr real_of_int p"
    using near by (rule mult_right_mono) simp
  also have "\<dots> = 2 powr (real_of_int p - 1)" by (simp add: powr_diff)
  finally show "\<bar>float_value (n, p) - real_of_int a / real_of_int b\<bar> \<le> 2 powr (real_of_int p - 1)"
    by (simp add: R_def)
  have lo: "2 powr real_of_int e \<le> R" and up: "R < 2 powr real_of_int (e + 1)"
    unfolding e_def R_def using floor_log2_real[OF assms(1,2)] by simp_all
  have "0 \<le> num" using assms by (simp add: num_def)
  then have "0 \<le> num div den" using den by (simp add: pos_imp_zdiv_nonneg_iff)
  then show "0 \<le> n" using round_half_even_cases[of num den] n by auto
  have "R * 2 powr (- real_of_int p) < 2 powr real_of_int (e + 1) * 2 powr (- real_of_int p)"
    using up by (simp add: mult_strict_right_mono)
  also have "\<dots> = 2 powr (real_of_int (e + 1) - real_of_int p)"
    by (simp add: powr_add[symmetric])
  also have "\<dots> \<le> 2 powr 53"
    by (rule powr_mono) (use p in simp_all)
  finally have "real_of_int num / real_of_int den < 2 ^ 53" using q by simp
  then have "real_of_int num < real_of_int (2 ^ 53 * den)" using den by (simp add: field_simps)
  then have "num < 2 ^ 53 * den" by (simp only: of_int_less_iff)
  moreover have "num div den * den \<le> num"
    using den by (simp add: minus_mod_eq_div_mult [symmetric])
  ultimately have "num div den * den < 2 ^ 53 * den" by linarith
  then have "num div den < 2 ^ 53" using den by (simp only: mult_less_cancel_right_pos)
  then show "n \<le> 2 ^ 53" using round_half_even_cases[of num den] n by auto
  show "p = - 1074 \<or> 2 ^ 52 \<le> n"
  proof (cases "p = - 1074")
    case False
    then have pe: "p = e - 52" using p by simp
    have "2 powr 52 = 2 powr (real_of_int e - real_of_int p)" using pe by simp
    also have "\<dots> = 2 powr real_of_int e * 2 powr (- real_of_int p)"
      by (simp add: powr_add[symmetric])
    also have "\<dots> \<le> R * 2 powr (- real_of_int p)"
      using lo by (simp add: mult_right_mono)
    finally have "2 ^ 52 \<le> real_of_int num / real_of_int den" using q by simp
    then have "real_of_int (2 ^ 52 * den) \<le> real_of_int num" using den by (simp add: field_simps)
    then have "2 ^ 52 * den \<le> num" by (simp only: of_int_le_iff)
    then have "(2 ^ 52 * den) div den \<le> num div den" by (rule zdiv_mono1) (rule den)
    then have "2 ^ 52 \<le> num div den" using den by simp
    then show ?thesis using round_half_even_cases[of num den] n by auto
  qed simp
qed

subsection \<open>The page count\<close>

lemma get_total_pages_in_range:
  assumes "0 \<le> total_records" "total_records < 2 ^ 53" "0 < limit" "limit < 2 ^ 1075"
  shows "get_total_pages limit total_records
           = Inr \<lceil>real_of_int total_records / real_of_int limit\<rceil>"
proof (cases "total_records = 0")
  case True
  then show ?thesis using assms
    by (simp add: get_total_pages_def int_true_divide_def math_ceil_def)
next
  case False
  then have pos: "0 < total_records" using assms by simp
  obtain x where x: "true_divide_pos total_records limit = Inr x"
      "math_ceil x = - ((- total_records) div limit)"
    using true_divide_pos_ceil[OF pos assms(2,3,4)] by blast
  obtain n p where np: "x = (n, p)" by (cases x)
  show ?thesis
    using x pos assms(3) np
    by (simp add: get_total_pages_def int_true_divide_def ceiling_as_div)
qed

text \<open>
  \<^bold>\<open>C1\<close> (as amended). For every \<open>total_records\<close> from 0 to below \<open>2 ^ 53\<close> and every
  \<open>limit\<close> from 1 to below \<open>2 ^ 1075\<close>, the calculator returns a page count, and it is the
  ceiling of the exact quotient \<open>total_records / limit\<close>: in this range the rounding of the
  quotient to a double never reaches the integer below it.
\<close>

theorem get_total_pages_ceiling:
  assumes "0 \<le> total_records" "total_records < 2 ^ 53" "0 < limit" "limit < 2 ^ 1075"
  shows "get_total_pages limit total_records
           = Inr \<lceil>real_of_int total_records / real_of_int limit\<rceil>"
  using assms by (rule get_total_pages_in_range)

theorem get_total_pages_ceiling_witness:
  "(0::int) \<le> 5 \<and> (5::int) < 2 ^ 53 \<and> (0::int) < 2 \<and> (2::int) < 2 ^ 1075
     \<and> get_total_pages 2 5 = Inr 3 \<and> get_total_pages 2 1 = Inr 1 \<and> get_total_pages 2 4 = Inr 2"
proof -
  have half: "\<lceil>(1::real) / 2\<rceil> = 1" by (rule ceiling_unique) simp_all
  show ?thesis
    using get_total_pages_ceiling [of 5 2] get_total_pages_ceiling [of 1 2]
      get_total_pages_ceiling [of 4 2] half
    by simp
qed

text \<open>
  Beyond that range the claim as written fails: with \<open>2 ^ 53 + 1\<close> records and limit 1 the
  double nearest to the quotient is \<open>2 ^ 53\<close>, one page short; with one record and the limit
  \<open>2 ^ 1075\<close> the quotient rounds to zero.
\<close>

theorem get_total_pages_counterexample:
  "get_total_pages 1 9007199254740993 = Inr 9007199254740992
     \<and> get_total_pages 1 9007199254740993
         \<noteq> Inr \<lceil>real_of_int 9007199254740993 / real_of_int 1\<rceil>
     \<and> get_total_pages (2 ^ 1075) 1 = Inr 0
     \<and> get_total_pages (2 ^ 1075) 1 \<noteq> Inr \<lceil>real_of_int 1 / real_of_int (2 ^ 1075)\<rceil>"
proof -
  have a: "get_total_pages 1 9007199254740993 = Inr 9007199254740992" by code_simp
  have b: "get_total_pages (2 ^ 1075) 1 = Inr 0" by code_simp
  have c: "\<lceil>real_of_int 1 / real_of_int (2 ^ 1075)\<rceil> = 1"
    by (rule ceiling_unique) simp_all
  show ?thesis using a b c by simp
qed

subsection \<open>The substitution and the substring test\<close>

lemma page_match_take:
  "6 \<le> length s \<Longrightarrow> page_match (s @ t) = page_match s"
  by (simp add: page_match_def nth_append)

lemma re_sub_page_no_match:
  "\<not> has_page_match s \<Longrightarrow> re_sub_page repl s = s"
  by (induction s) auto

lemma re_sub_page_prefix:
  "\<not> has_page_match (pre @ ''page='') \<Longrightarrow>
     re_sub_page repl (pre @ ''page='' @ rest) = pre @ re_sub_page repl (''page='' @ rest)"
proof (induction pre)
  case Nil
  then show ?case by simp
next
  case (Cons c pre)
  have "page_match (((c # pre) @ ''page='') @ rest) = page_match ((c # pre) @ ''page='')"
    by (rule page_match_take) simp
  then have "\<not> page_match (c # pre @ ''page='' @ rest)" using Cons.prems by simp
  moreover have "\<not> has_page_match (pre @ ''page='')" using Cons.prems by simp
  ultimately show ?case using Cons.IH by simp
qed

lemma re_sub_page_at_match:
  "d \<noteq> CHR ''&'' \<Longrightarrow>
     re_sub_page repl (''page='' @ d # post) = ''page='' @ repl @ re_sub_page repl post"
  by (simp add: page_match_def)

lemma re_sub_page_single:
  assumes "d \<noteq> CHR ''&''" "\<not> has_page_match (pre @ ''page='')" "\<not> has_page_match post"
  shows "re_sub_page repl (pre @ ''page='' @ d # post) = pre @ ''page='' @ repl @ post"
proof -
  have "re_sub_page repl (pre @ ''page='' @ d # post)
          = pre @ re_sub_page repl (''page='' @ d # post)"
    using assms(2) by (rule re_sub_page_prefix)
  also have "re_sub_page repl (''page='' @ d # post) = ''page='' @ repl @ re_sub_page repl post"
    using assms(1) by (rule re_sub_page_at_match)
  also have "re_sub_page repl post = post"
    using assms(3) by (rule re_sub_page_no_match)
  finally show ?thesis .
qed

lemma str_contains_append:
  "str_contains sub (pre @ sub @ post)"
proof (induction pre)
  case Nil
  have tk: "take (length sub) (sub @ post) = sub" by simp
  show ?case
  proof (cases "sub @ post")
    case Nil
    then show ?thesis by simp
  next
    case (Cons a list)
    then show ?thesis using tk by simp
  qed
next
  case (Cons c pre)
  then show ?case by simp
qed

lemma str_contains_iff:
  "str_contains sub s \<longleftrightarrow> (\<exists>pre post. s = pre @ sub @ post)"
proof
  show "str_contains sub s \<Longrightarrow> \<exists>pre post. s = pre @ sub @ post"
  proof (induction s)
    case Nil
    then show ?case by simp
  next
    case (Cons c cs)
    show ?case
    proof (cases "take (length sub) (c # cs) = sub")
      case True
      then have "c # cs = [] @ sub @ drop (length sub) (c # cs)"
        by (metis append_Nil append_take_drop_id)
      then show ?thesis by blast
    next
      case False
      then obtain pre post where "cs = pre @ sub @ post" using Cons by auto
      then have "c # cs = (c # pre) @ sub @ post" by simp
      then show ?thesis by blast
    qed
  qed
next
  show "\<exists>pre post. s = pre @ sub @ post \<Longrightarrow> str_contains sub s"
    using str_contains_append by auto
qed

lemma is_digit_not_amp: "is_digit d \<Longrightarrow> d \<noteq> CHR ''&''"
  by (auto simp: is_digit_def)

subsection \<open>The previous and the next link\<close>

text \<open>
  \<^bold>\<open>C2\<close>. For every \<open>base_url\<close>, \<open>page\<close>, \<open>limit\<close> and \<open>total_records\<close>, the previous link is
  \<open>None\<close> exactly when \<open>page = 1\<close> or \<open>total_records - (page - 1) * limit \<le> 0\<close>, and the next
  link is \<open>None\<close> exactly when \<open>total_records - page * limit \<le> 0\<close>.
\<close>

theorem previous_and_next_null:
  "(get_previous_page base_url page limit total_records = None
      \<longleftrightarrow> page = 1 \<or> total_records - (page - 1) * limit \<le> 0)
   \<and> (get_next_page base_url page limit total_records = None
      \<longleftrightarrow> total_records - page * limit \<le> 0)"
  by (simp add: get_previous_page_def get_next_page_def)

text \<open>
  \<^bold>\<open>C3\<close> (as amended). Let \<open>base_url\<close> be \<open>pre @ ''page='' @ d # post\<close> with \<open>d\<close> one decimal
  digit, and let the pattern (\<^verbatim>\<open>page=\<close> and a character other than \<^verbatim>\<open>&\<close>) match nowhere
  else, neither from a position in \<open>pre\<close> nor in \<open>post\<close>. Then a previous or next link that
  is not \<open>None\<close> is \<open>base_url\<close> with that one digit replaced by the decimal target page and
  everything else untouched. A value of two digits is not rewritten to the target: stepping
  from \<^verbatim>\<open>page=10\<close> to 11 gives \<^verbatim>\<open>page=110\<close>.
\<close>

theorem page_rewrite_single_digit:
  assumes "is_digit d"
    and "\<not> has_page_match (pre @ ''page='')" and "\<not> has_page_match post"
  shows "(page \<noteq> 1 \<and> 0 < total_records - (page - 1) * limit \<longrightarrow>
            get_previous_page (pre @ ''page='' @ d # post) page limit total_records
              = Some (pre @ ''page='' @ str_int (page - 1) @ post))
       \<and> (0 < total_records - page * limit \<longrightarrow>
            get_next_page (pre @ ''page='' @ d # post) page limit total_records
              = Some (pre @ ''page='' @ str_int (page + 1) @ post))
       \<and> get_next_page ''http://localhost:5002/users?page=10'' 10 1 20
              = Some ''http://localhost:5002/users?page=110''"
proof -
  have amp: "d \<noteq> CHR ''&''" using assms(1) by (rule is_digit_not_amp)
  have sub: "\<And>repl. re_sub_page repl (pre @ ''page='' @ d # post) = pre @ ''page='' @ repl @ post"
    using amp assms(2,3) by (rule re_sub_page_single)
  have "str_contains ''page'' (pre @ ''page'' @ (CHR ''='' # d # post))"
    by (rule str_contains_append)
  then have cont: "str_contains ''page'' (pre @ ''page='' @ d # post)" by simp
  have ex: "get_next_page ''http://localhost:5002/users?page=10'' 10 1 20
              = Some ''http://localhost:5002/users?page=110''"
    by code_simp
  show ?thesis
    using sub cont ex
    by (simp only: get_previous_page_def get_next_page_def) simp
qed

theorem page_rewrite_single_digit_witness:
  "is_digit CHR ''2''
     \<and> \<not> has_page_match (''http://localhost:5002/users?'' @ ''page='')
     \<and> \<not> has_page_match ''&limit=1''
     \<and> get_previous_page ''http://localhost:5002/users?page=2&limit=1'' 2 1 3
           = Some ''http://localhost:5002/users?page=1&limit=1''
     \<and> get_next_page ''http://localhost:5002/users?page=2&limit=1'' 2 1 3
           = Some ''http://localhost:5002/users?page=3&limit=1''"
proof -
  have d: "is_digit CHR ''2''" by (simp add: is_digit_def)
  have pre: "\<not> has_page_match (''http://localhost:5002/users?'' @ ''page='')"
    by (simp add: page_match_def)
  have post: "\<not> has_page_match ''&limit=1''" by (simp add: page_match_def)
  have s: "str_int 1 = ''1''" "str_int 3 = ''3''" by code_simp+
  show ?thesis
    using page_rewrite_single_digit [OF d pre post, of 2 3 1] d pre post s by simp
qed

text \<open>
  The claim as written, for every \<open>base_url\<close> whose page parameter is one digit, fails where
  another parameter ends in \<^verbatim>\<open>page=\<close>: the substitution rewrites that one too.
\<close>

theorem page_rewrite_counterexample:
  "get_next_page ''http://localhost:5002/users?perpage=5&page=1'' 1 1 3
      = Some ''http://localhost:5002/users?perpage=2&page=2''
   \<and> get_next_page ''http://localhost:5002/users?perpage=5&page=1'' 1 1 3
      \<noteq> Some ''http://localhost:5002/users?perpage=5&page=2''"
  by code_simp

text \<open>
  On the three base URLs of the tests (a page parameter, a limit parameter alone, neither)
  the next link is the one the tests compute.
\<close>

lemma next_page_link_of_tests:
  "get_next_page ''http://localhost:5002/users?page=1'' 1 1 2
      = Some ''http://localhost:5002/users?page=2''
   \<and> get_next_page ''http://localhost:5002/users?limit=2'' 1 2 4
      = Some ''http://localhost:5002/users?limit=2&page=2''
   \<and> get_next_page ''http://localhost:5002/users'' 1 1 2
      = Some ''http://localhost:5002/users?page=2&limit=1''"
  by code_simp

text \<open>
  \<^bold>\<open>C4\<close>. The code decides between the three cases by \<^verbatim>\<open>"page" in base_url\<close> and
  \<^verbatim>\<open>"limit" in base_url\<close>, which look for the two words anywhere in the URL. With page 1,
  limit 2 and four records, the base URL \<^verbatim>\<open>http://mypage.com/users?limit=2\<close> has a limit
  parameter and no page parameter, and the next link is the base URL itself, not the base
  URL with \<^verbatim>\<open>&page=2\<close> appended: the word is found in the host name and the substitution
  finds nothing to rewrite. With page 1, limit 1 and two records, the base URL
  \<^verbatim>\<open>http://unlimited.com/users\<close> has neither parameter, and the next link is the base URL
  with \<^verbatim>\<open>&page=2\<close> appended, not with \<^verbatim>\<open>?page=2&limit=1\<close>.
\<close>

theorem next_page_link_word_in_host:
  "get_next_page ''http://mypage.com/users?limit=2'' 1 2 4
      = Some ''http://mypage.com/users?limit=2''
   \<and> get_next_page ''http://mypage.com/users?limit=2'' 1 2 4
      \<noteq> Some ''http://mypage.com/users?limit=2&page=2''
   \<and> get_next_page ''http://unlimited.com/users'' 1 1 2
      = Some ''http://unlimited.com/users&page=2''
   \<and> get_next_page ''http://unlimited.com/users'' 1 1 2
      \<noteq> Some ''http://unlimited.com/users?page=2&limit=1''"
  by code_simp

subsection \<open>The response as a whole\<close>

text \<open>
  \<^verbatim>\<open>create_response\<close> returns whenever the page count is computed, and its links are those
  of the two functions above. With three records, page 1 and limit 1 there are three pages,
  no previous link and a next link to page 2.
\<close>

lemma create_response_in_range:
  assumes "0 \<le> data_total_records d" "data_total_records d < 2 ^ 53"
    and "0 < data_limit d" "data_limit d < 2 ^ 1075"
  shows "create_response base_url d =
     Inr \<lparr> response_page = data_page d, response_limit = data_limit d,
           response_total_pages =
             \<lceil>real_of_int (data_total_records d) / real_of_int (data_limit d)\<rceil>,
           response_total_records = data_total_records d,
           response_records = data_records d,
           response_previous =
             get_previous_page base_url (data_page d) (data_limit d) (data_total_records d),
           response_next =
             get_next_page base_url (data_page d) (data_limit d) (data_total_records d) \<rparr>"
  using get_total_pages_in_range [OF assms] by (simp add: create_response_def)

lemma create_response_zero_limit:
  "data_limit d = 0 \<Longrightarrow> create_response base_url d = Inl ZeroDivisionError"
  by (simp add: create_response_def get_total_pages_def int_true_divide_def)

lemma create_response_three_users:
  "create_response ''http://localhost:5002/users?page=1&limit=1''
     \<lparr> data_page = 1, data_limit = 1, data_total_records = 3, data_records = [u] \<rparr> =
   Inr \<lparr> response_page = 1, response_limit = 1, response_total_pages = 3,
         response_total_records = 3, response_records = [u],
         response_previous = None,
         response_next = Some ''http://localhost:5002/users?page=2&limit=1'' \<rparr>"
proof -
  have "get_total_pages 1 3 = Inr 3" by code_simp
  moreover have "get_next_page ''http://localhost:5002/users?page=1&limit=1'' 1 1 3
                   = Some ''http://localhost:5002/users?page=2&limit=1''"
    by code_simp
  ultimately show ?thesis by (simp add: create_response_def get_previous_page_def)
qed

section \<open>Properties of the mapper\<close>

lemmas mapper_defs =
  to_domain_def getattr_or_None_def hasattr_def getattr_def User_init_def
  validate_str_def validate_optional_str_def validate_optional_datetime_def

lemma to_domain_request:
  "to_domain lib (UserRequest_object user_request) =
     Inr \<lparr> User_id = None, User_name = UserRequest_name user_request,
           User_email = UserRequest_email user_request,
           User_created_at = None, User_updated_at = None \<rparr>"
  by (simp add: mapper_defs UserRequest_object_def)

lemma to_domain_persistence:
  "to_domain lib (DictToObj (to_persistence user)) =
     Inr \<lparr> User_id = None, User_name = User_name user, User_email = User_email user,
           User_created_at = None, User_updated_at = None \<rparr>"
  by (simp add: mapper_defs DictToObj_def to_persistence_def)

lemma to_domain_dict:
  "to_domain lib (Dict d) = Inl (AttributeError ''name'')"
  by (simp add: mapper_defs)

lemma to_domain_row:
  "to_domain lib (DictToObj (asdict row)) =
     Inr \<lparr> User_id = Some (hex (UserModel_id row)), User_name = UserModel_name row,
           User_email = UserModel_email row,
           User_created_at = Some (UserModel_created_at row),
           User_updated_at = UserModel_updated_at row \<rparr>"
  by (cases "UserModel_updated_at row") (simp_all add: mapper_defs DictToObj_def asdict_def)

text \<open>
  \<^bold>\<open>C8\<close> (as amended). For every domain user \<open>u\<close>, the persistence conversion followed by
  the wrapper \<^verbatim>\<open>DictToObj\<close> and the domain conversion,
  \<^verbatim>\<open>to_domain(DictToObj(to_persistence(u)))\<close>, yields a domain user whose name is that of \<open>u\<close>
  and whose email is that of \<open>u\<close>; its identifier and its timestamps are absent.
\<close>

theorem round_trip_name_email:
  "\<exists>user'. to_domain lib (DictToObj (to_persistence user)) = Inr user'
      \<and> User_name user' = User_name user \<and> User_email user' = User_email user
      \<and> User_id user' = None \<and> User_created_at user' = None \<and> User_updated_at user' = None"
  by (simp add: to_domain_persistence)

text \<open>
  The claim as written composes the two conversions directly. \<^verbatim>\<open>to_persistence\<close> gives a
  dictionary and \<^verbatim>\<open>to_domain\<close> reads attributes: \<^verbatim>\<open>raw.name\<close> raises \<^verbatim>\<open>AttributeError\<close>.
\<close>

theorem round_trip_counterexample:
  "to_domain example_lib (Dict (to_persistence example_user)) = Inl (AttributeError ''name'')"
  by (simp add: to_domain_dict)

lemma to_response_ok:
  assumes "User_id user = Some i" "User_created_at user = Some c" "astimezone lib c = Inr c'"
    and "astimezone_if_set lib (User_updated_at user) = Inr u'"
  shows "to_response lib user =
     Inr \<lparr> UserResponse_id = i, UserResponse_name = User_name user,
           UserResponse_email = User_email user,
           UserResponse_created_at = c', UserResponse_updated_at = u' \<rparr>"
  using assms by (simp add: to_response_def astimezone_if_set_def)

text \<open>
  \<^bold>\<open>C9\<close> (as amended). The conversion of a validated request to a domain user and that of a
  storage row (through \<^verbatim>\<open>DictToObj\<close>) to a domain user return a result for every request
  and every row, the fields copied and the absent ones \<open>None\<close>. The conversion of a domain
  user to a response returns a result for every user whose identifier and creation time are
  present, when \<^verbatim>\<open>astimezone\<close> returns for its timestamps, which the response then carries;
  for a user without an identifier or without a creation time it returns none.
\<close>

theorem mapper_conversions_total:
  "to_domain lib (UserRequest_object user_request) =
     Inr \<lparr> User_id = None, User_name = UserRequest_name user_request,
           User_email = UserRequest_email user_request,
           User_created_at = None, User_updated_at = None \<rparr>
   \<and> to_domain lib (DictToObj (asdict row)) =
     Inr \<lparr> User_id = Some (hex (UserModel_id row)), User_name = UserModel_name row,
           User_email = UserModel_email row,
           User_created_at = Some (UserModel_created_at row),
           User_updated_at = UserModel_updated_at row \<rparr>
   \<and> (User_id user = Some i \<and> User_created_at user = Some c \<and> astimezone lib c = Inr c'
        \<and> astimezone_if_set lib (User_updated_at user) = Inr u'
      \<longrightarrow> to_response lib user =
            Inr \<lparr> UserResponse_id = i, UserResponse_name = User_name user,
                  UserResponse_email = User_email user,
                  UserResponse_created_at = c', UserResponse_updated_at = u' \<rparr>)
   \<and> (User_id user = None \<or> User_created_at user = None
      \<longrightarrow> (\<forall>response. to_response lib user \<noteq> Inr response))"
proof -
  have none: "\<forall>response. to_response lib user \<noteq> Inr response"
    if "User_id user = None \<or> User_created_at user = None"
    using that
    by (auto simp add: to_response_def astimezone_if_set_def split: sum.splits option.splits)
  show ?thesis
    using none by (simp add: to_domain_request to_domain_row to_response_ok)
qed

theorem mapper_conversions_total_witness:
  "to_domain example_lib (DictToObj (asdict example_row)) =
     Inr \<lparr> User_id = Some ''3f2b8c1e9d4a4b7e8f0a1c2d3e4f5a6b'', User_name = ''alice'',
           User_email = ''a@x.com'',
           User_created_at = Some \<lparr> microseconds = 1700000000000000, utcoffset = Some 0 \<rparr>,
           User_updated_at = None \<rparr>
   \<and> to_response example_lib
       \<lparr> User_id = Some ''3f2b8c1e9d4a4b7e8f0a1c2d3e4f5a6b'', User_name = ''alice'',
         User_email = ''a@x.com'',
         User_created_at = Some \<lparr> microseconds = 1700000000000000, utcoffset = None \<rparr>,
         User_updated_at = None \<rparr> =
     Inr \<lparr> UserResponse_id = ''3f2b8c1e9d4a4b7e8f0a1c2d3e4f5a6b'',
           UserResponse_name = ''alice'', UserResponse_email = ''a@x.com'',
           UserResponse_created_at = \<lparr> microseconds = 1700000000000000, utcoffset = Some 0 \<rparr>,
           UserResponse_updated_at = None \<rparr>
   \<and> User_id example_user = None
   \<and> (\<forall>response. to_response example_lib example_user \<noteq> Inr response)"
  using mapper_conversions_total [of example_lib _ example_row
      "\<lparr> User_id = Some ''3f2b8c1e9d4a4b7e8f0a1c2d3e4f5a6b'', User_name = ''alice'',
         User_email = ''a@x.com'',
         User_created_at = Some \<lparr> microseconds = 1700000000000000, utcoffset = None \<rparr>,
         User_updated_at = None \<rparr>"
      "''3f2b8c1e9d4a4b7e8f0a1c2d3e4f5a6b''"
      "\<lparr> microseconds = 1700000000000000, utcoffset = None \<rparr>"
      "\<lparr> microseconds = 1700000000000000, utcoffset = Some 0 \<rparr>" None]
    mapper_conversions_total [of example_lib _ example_row example_user]
  by (simp add: example_lib_def example_row_def example_user_def example_uuid_def
      astimezone_if_set_def)

text \<open>
  The claim as written has no failure mode for the third conversion. A domain user built
  from a request has no identifier, and \<^verbatim>\<open>UserResponse\<close> refuses it.
\<close>

theorem to_response_counterexample:
  "to_response example_lib example_user = Inl (ValidationError ''UserResponse'')"
  by (simp add: to_response_def example_user_def astimezone_if_set_def)

section \<open>Properties of the errors and their responses\<close>

lemma str_nat_three_digits:
  assumes "100 \<le> n" "n < 1000"
  shows "str_nat n = [digit_char (n div 100), digit_char (n div 10 mod 10), digit_char (n mod 10)]"
proof -
  have "str_nat n = str_nat (n div 10) @ [digit_char (n mod 10)]"
    using assms by (simp add: str_nat.simps [of n])
  also have "str_nat (n div 10) = str_nat (n div 100) @ [digit_char (n div 10 mod 10)]"
  proof -
    have "\<not> n div 10 < 10" using assms by arith
    moreover have "n div 10 div 10 = n div 100" by (simp add: div_mult2_eq)
    ultimately show ?thesis using str_nat.simps [of "n div 10"] by (simp only: if_False)
  qed
  also have "str_nat (n div 100) = [digit_char (n div 100)]"
  proof -
    have "n div 100 < 10" using assms by arith
    then show ?thesis using str_nat.simps [of "n div 100"] by (simp only: if_True)
  qed
  finally show ?thesis by simp
qed

lemma digit_char_eq_4:
  assumes "d < 10"
  shows "digit_char d = CHR ''4'' \<longleftrightarrow> d = 4"
proof -
  from assms have "d = 0 \<or> d = 1 \<or> d = 2 \<or> d = 3 \<or> d = 4 \<or> d = 5
    \<or> d = 6 \<or> d = 7 \<or> d = 8 \<or> d = 9" by arith
  then show ?thesis by (elim disjE) (simp_all add: digit_char_def)
qed

lemma startswith_4_http:
  assumes "100 \<le> c" "c \<le> 599"
  shows "startswith (str_int c) ''4'' \<longleftrightarrow> 400 \<le> c \<and> c \<le> 499"
proof -
  define n where "n = nat c"
  have n: "100 \<le> n" "n < 1000" "c = int n" using assms by (simp_all add: n_def)
  have d: "n div 100 < 10" using n by simp
  have "startswith (str_int c) ''4'' \<longleftrightarrow> digit_char (n div 100) = CHR ''4''"
    using n by (simp add: startswith_def str_int_def str_nat_three_digits)
  also have "\<dots> \<longleftrightarrow> n div 100 = 4" using d by (rule digit_char_eq_4)
  also have "\<dots> \<longleftrightarrow> 400 \<le> n \<and> n \<le> 499" by arith
  finally show ?thesis using n by simp
qed

lemma str_int_500: "str_int 500 = ''500''" by code_simp
lemma str_int_404: "str_int 404 = ''404''" by code_simp

lemma raise_ServerError_500:
  "raise_ServerError message (Some HTTP_500_INTERNAL_SERVER_ERROR) (Some detail) =
     ServerErrorExn \<lparr> ServerError_message = message, ServerError_status_code = 500,
                      ServerError_detail = DetailObject detail,
                      ServerError_is_operational = False \<rparr>"
  by (simp add: raise_ServerError_def ServerError_init_def HTTPException_init_def
      HTTP_500_INTERNAL_SERVER_ERROR_def format_status_code_def startswith_def str_int_500)

lemma raise_ServerError_404:
  "raise_ServerError message (Some HTTP_404_NOT_FOUND) (Some detail) =
     ServerErrorExn \<lparr> ServerError_message = message, ServerError_status_code = 404,
                      ServerError_detail = DetailObject detail,
                      ServerError_is_operational = True \<rparr>"
  by (simp add: raise_ServerError_def ServerError_init_def HTTPException_init_def
      HTTP_404_NOT_FOUND_def format_status_code_def startswith_def str_int_404)

lemma HTTPStatus_phrase_500: "HTTPStatus_phrase 500 = Some ''Internal Server Error''"
  by (simp add: HTTPStatus_phrase_def)

lemma async_engine_unset:
  "\<not> async_engine_set db_service \<Longrightarrow>
   async_engine db_service =
     Inl (ServerErrorExn \<lparr> ServerError_message = ''Async engine is None!'',
                           ServerError_status_code = 500,
                           ServerError_detail = Phrase ''Internal Server Error'',
                           ServerError_is_operational = False \<rparr>)"
  by (simp add: async_engine_def raise_ServerError_def ServerError_init_def
      HTTPException_init_def HTTP_500_INTERNAL_SERVER_ERROR_def format_status_code_def
      startswith_def str_int_500 HTTPStatus_phrase_500)

lemma ServerError_init_fields:
  assumes "ServerError_init message status_code detail = Inr error"
  shows "ServerError_is_operational error = startswith (format_status_code status_code) ''4''"
    and "ServerError_status_code error
           = (case status_code of None \<Rightarrow> 500 | Some c \<Rightarrow> if c \<noteq> 0 then c else 500)"
    and "ServerError_message error = message"
  using assms by (auto simp add: ServerError_init_def split: sum.splits if_splits)

lemma startswith_None: "\<not> startswith ''None'' ''4''"
  by (simp add: startswith_def)

lemma startswith_0: "\<not> startswith (str_int 0) ''4''"
  by (simp add: startswith_def str_int_def str_nat.simps digit_char_def)

lemma ServerError_4xx:
  assumes "ServerError_init message status_code detail = Inr error"
    and "100 \<le> ServerError_status_code error" "ServerError_status_code error \<le> 599"
  shows "ServerError_is_operational error
           \<longleftrightarrow> 400 \<le> ServerError_status_code error \<and> ServerError_status_code error \<le> 499"
proof (cases status_code)
  case None
  then show ?thesis
    using ServerError_init_fields[OF assms(1)]
    by (simp add: format_status_code_def startswith_None)
next
  case (Some c)
  show ?thesis
  proof (cases "c = 0")
    case True
    then show ?thesis
      using Some ServerError_init_fields[OF assms(1)]
      by (simp add: format_status_code_def startswith_0)
  next
    case False
    then have sc: "ServerError_status_code error = c"
      using Some ServerError_init_fields(2)[OF assms(1)] by simp
    then have "startswith (str_int c) ''4'' \<longleftrightarrow> 400 \<le> c \<and> c \<le> 499"
      using assms(2,3) by (simp add: startswith_4_http)
    then show ?thesis
      using Some sc ServerError_init_fields(1)[OF assms(1)]
      by (simp add: format_status_code_def)
  qed
qed

text \<open>
  Every \<^verbatim>\<open>ServerError\<close> constructed with a status code is operational exactly when the
  decimal text of the code starts with \<^verbatim>\<open>4\<close>.
\<close>

lemma ServerError_operational_iff_starts_with_4:
  assumes "ServerError_init message (Some status_code) detail = Inr error"
  shows "ServerError_is_operational error \<longleftrightarrow> startswith (str_int status_code) ''4''"
  using ServerError_init_fields(1)[OF assms] by (simp add: format_status_code_def)

text \<open>
  A response is what the constructor is given, when it renders: the response to a
  \<^verbatim>\<open>ServerError\<close> carries its status and its \<^verbatim>\<open>is_operational\<close>, so that for a status from
  100 to 599 \<^verbatim>\<open>is_operational\<close> is true exactly for 4xx; the response to a request
  validation error has status 422 and \<^verbatim>\<open>is_operational\<close> true.
\<close>

lemma JSONResponse_init_Inr:
  assumes "JSONResponse_init content status_code = Inr response"
  shows "response = \<lparr> JSONResponse_content = content, JSONResponse_status_code = status_code \<rparr>"
  using assms by (simp add: JSONResponse_init_def split: option.splits)

lemma server_error_response_iff_4xx:
  assumes init: "ServerError_init message status_code detail = Inr error"
    and h: "exception_handlers (RaisedServerError error) = Inr response"
    and r: "100 \<le> JSONResponse_status_code response" "JSONResponse_status_code response \<le> 599"
  shows "APIErrorResponse_is_operational (JSONResponse_content response)
           \<longleftrightarrow> 400 \<le> JSONResponse_status_code response
               \<and> JSONResponse_status_code response \<le> 499"
proof -
  from h obtain d where d: "ServerError_detail error = DetailObject d"
    and j: "JSONResponse_init
              \<lparr> APIErrorResponse_message = ServerError_message error,
                APIErrorResponse_detail = Some d,
                APIErrorResponse_is_operational = ServerError_is_operational error \<rparr>
              (ServerError_status_code error) = Inr response"
    by (auto simp add: exception_handlers_def handle_server_error_def split: detail_attr.splits)
  have eq: "JSONResponse_status_code response = ServerError_status_code error"
    "APIErrorResponse_is_operational (JSONResponse_content response)
       = ServerError_is_operational error"
    using JSONResponse_init_Inr [OF j] by simp_all
  show ?thesis using ServerError_4xx[OF init] r by (simp add: eq)
qed

lemma validation_error_response_422:
  assumes "exception_handlers (RaisedRequestValidationError validation_error) = Inr response"
  shows "APIErrorResponse_is_operational (JSONResponse_content response)
         \<and> JSONResponse_status_code response = 422"
proof -
  have "JSONResponse_init
          \<lparr> APIErrorResponse_message = ''Validation failed'',
            APIErrorResponse_detail =
              Some \<lparr> Detail_context = RequestValidationError_body validation_error,
                     Detail_cause = Some (RequestValidationError_errors validation_error) \<rparr>,
            APIErrorResponse_is_operational = True \<rparr>
          HTTP_422_UNPROCESSABLE_ENTITY = Inr response"
    using assms by (simp add: exception_handlers_def handle_request_validation_error_def)
  from JSONResponse_init_Inr [OF this] show ?thesis
    by (simp add: HTTP_422_UNPROCESSABLE_ENTITY_def)
qed

lemma server_error_response_404:
  "exception_handlers (RaisedServerError
         \<lparr> ServerError_message = ''User could not be read'', ServerError_status_code = 404,
           ServerError_detail =
             DetailObject \<lparr> Detail_context = Some (UStr ''x''), Detail_cause = None \<rparr>,
           ServerError_is_operational = True \<rparr>) =
     Inr \<lparr> JSONResponse_content =
             \<lparr> APIErrorResponse_message = ''User could not be read'',
               APIErrorResponse_detail =
                 Some \<lparr> Detail_context = Some (UStr ''x''), Detail_cause = None \<rparr>,
               APIErrorResponse_is_operational = True \<rparr>,
           JSONResponse_status_code = 404 \<rparr>"
  by (simp add: exception_handlers_def handle_server_error_def JSONResponse_init_def
      render_def json_obstacle_opt_def)

text \<open>
  The rendering fails where the detail holds a \<^verbatim>\<open>datetime\<close>: a \<^verbatim>\<open>ServerError\<close> whose context
  is a stored user gets no response.
\<close>

lemma server_error_response_datetime:
  "exception_handlers (RaisedServerError
         \<lparr> ServerError_message = ''User could not be created'', ServerError_status_code = 500,
           ServerError_detail =
             DetailObject
               \<lparr> Detail_context =
                   Some (UUser (example_user
                      \<lparr> User_created_at :=
                          Some \<lparr> microseconds = 1700000000000000, utcoffset = None \<rparr> \<rparr>)),
                 Detail_cause = None \<rparr>,
           ServerError_is_operational = False \<rparr>) =
     Inl (TypeError ''Object of type datetime is not JSON serializable'')"
  by (simp add: exception_handlers_def handle_server_error_def JSONResponse_init_def
      render_def json_obstacle_opt_def example_user_def)

text \<open>
  The handler registered for \<^verbatim>\<open>Exception\<close> gives no response, whatever the exception:
  it raises on the empty \<^verbatim>\<open>args\<close>, on a first member that is not a text, on the missing
  attribute \<^verbatim>\<open>status_code\<close>, or when the body, whose cause is the exception object, is
  rendered.
\<close>

lemma handle_common_error_no_response:
  "handle_common_error error \<noteq> Inr response"
  by (simp add: handle_common_error_def JSONResponse_init_def render_def
      json_obstacle_opt_def split: list.splits option.splits)

lemma handle_common_error_no_args:
  "handle_common_error (PyExn ''Exception'' [] [] ''None'' None)
     = Inl (IndexError ''tuple index out of range'')"
  by (simp add: handle_common_error_def)

lemma handle_common_error_with_status_code:
  "handle_common_error (PyExn ''Timeout'' [PyStr ''timed out''] ''timed out'' ''None'' (Some 504))
     = Inl (TypeError ''Object of type Timeout is not JSON serializable'')"
  by (simp add: handle_common_error_def validate_str_def JSONResponse_init_def render_def
      json_obstacle_opt_def)

text \<open>
  \<^bold>\<open>C7\<close>. A request for the list of users with \<^verbatim>\<open>limit=0\<close> makes the pagination calculator
  divide by zero. The \<^verbatim>\<open>ZeroDivisionError\<close> goes to the handler registered for
  \<^verbatim>\<open>Exception\<close>, which prepares a body with \<^verbatim>\<open>is_operational\<close> false and then reads
  \<^verbatim>\<open>error.status_code\<close>: the handler raises \<^verbatim>\<open>AttributeError\<close> and gives no response, so
  the error that the client is answered with carries no \<^verbatim>\<open>is_operational\<close> at all.
\<close>

theorem zero_limit_error_has_no_body:
  "create_response ''http://localhost:5002/users?limit=0''
       \<lparr> data_page = 1, data_limit = 0, data_total_records = 3,
         data_records = ([] :: UserResponse list) \<rparr>
     = Inl ZeroDivisionError
   \<and> exception_handlers (RaisedException ZeroDivisionError)
     = Inl (AttributeError ''status_code'')"
  by (simp add: create_response_def get_total_pages_def int_true_divide_def
      exception_handlers_def handle_common_error_def ZeroDivisionError_def builtin_exn_def
      validate_str_def)

section \<open>Properties of the repository and of the service\<close>

text \<open>
  The constructor \<^verbatim>\<open>UUID\<close> on three identifiers: one in the textual form of a UUID, one
  that it refuses for its length, and one that is not in the textual form and that it
  accepts, because \<^verbatim>\<open>int(hex, 16)\<close> reads the prefix \<^verbatim>\<open>0x\<close>.
\<close>

lemma UUID_init_canonical:
  "UUID_init ''3f2b8c1e-9d4a-4b7e-8f0a-1c2d3e4f5a6b''
     = Inr (UUID_hex ''3f2b8c1e9d4a4b7e8f0a1c2d3e4f5a6b'')"
  by code_simp

lemma UUID_init_not_a_uuid:
  "UUID_init ''not-a-uuid'' = Inl (ValueError ''badly formed hexadecimal UUID string'')"
  by code_simp

lemma UUID_init_0x:
  "UUID_init ''0x000000000000000000000000000000''
     = Inr (UUID_hex ''00000000000000000000000000000000'')"
  by code_simp

lemma UUID_init_not_hexadecimal:
  "UUID_init ''3f2b8c1e-9d4a-4b7e-8f0a-1c2d3e4f5a6g''
     = Inl (ValueError (''invalid literal for int() with base 16: ''
              @ [CHR 0x27] @ ''3f2b8c1e9d4a4b7e8f0a1c2d3e4f5a6g'' @ [CHR 0x27]))"
  by code_simp

lemma UUID_example:
  "UUID example_lib ''3f2b8c1e-9d4a-4b7e-8f0a-1c2d3e4f5a6b'' = Inr example_uuid"
  by (simp add: example_lib_def example_uuid_def UUID_init_canonical)

lemma with_connection_ok:
  "async_engine_set db_service \<Longrightarrow> connect db_service = None \<Longrightarrow>
     with_connection db_service block = block"
  by (simp add: with_connection_def async_engine_def)

lemma with_connection_not_None:
  "block \<noteq> Inr None \<Longrightarrow> with_connection db_service block \<noteq> Inr None"
  by (auto simp add: with_connection_def async_engine_def split: sum.splits option.splits)

lemma try_except_Inr [simp]:
  "try_except db_service message context (Inr result) = Inr result"
  by (simp add: try_except_def)

lemma try_except_Inl:
  "try_except db_service message context (Inl err) =
     Inl (except_clause db_service message context err)"
  by (simp add: try_except_def)

lemma except_clause_rollback_ok:
  "rollback db_service = None \<Longrightarrow>
     except_clause db_service message context err =
       ServerErrorExn \<lparr> ServerError_message = message, ServerError_status_code = 500,
                        ServerError_detail =
                          DetailObject \<lparr> Detail_context = context,
                                         Detail_cause = Some (UStr (exn_cause err)) \<rparr>,
                        ServerError_is_operational = False \<rparr>"
  by (simp add: except_clause_def raise_ServerError_500)

lemma except_clause_carries_cause: "carries_cause (except_clause db_service message context err)"
  by (simp add: except_clause_def raise_ServerError_500 carries_cause_def split: option.splits)

lemma with_connection_carries_cause:
  assumes "async_engine_set db_service"
    and "with_connection db_service (try_except db_service message context body) = Inl err"
  shows "carries_cause err"
proof (cases "connect db_service")
  case None
  then have "try_except db_service message context body = Inl err"
    using assms by (simp add: with_connection_ok)
  then show ?thesis
    by (cases body) (auto simp add: try_except_def except_clause_carries_cause)
next
  case (Some e)
  then have "err = OtherExn e"
    using assms by (simp add: with_connection_def async_engine_def)
  then show ?thesis by (simp add: carries_cause_def)
qed

lemma service_except_500:
  assumes "carries_cause err"
  shows "\<exists>cause. cause_of lib err = Inr cause \<and>
     service_except lib message context err =
       ServerErrorExn \<lparr> ServerError_message = message, ServerError_status_code = 500,
                        ServerError_detail =
                          DetailObject \<lparr> Detail_context = context,
                                         Detail_cause = Some (UStr cause) \<rparr>,
                        ServerError_is_operational = False \<rparr>"
  using assms
  by (auto simp add: carries_cause_def service_except_def cause_of_def raise_ServerError_500
      split: exn.splits detail_attr.splits)

lemma service_except_no_detail:
  "ServerError_detail error = Phrase phrase \<Longrightarrow>
     service_except lib message context (ServerErrorExn error) = OtherExn (AttributeError ''cause'')"
  by (simp add: service_except_def cause_of_def)

lemmas repository_defs = read_user_def update_user_def delete_user_def create_user_def
lemmas service_defs = retrieve_user_def replace_user_def remove_user_def register_user_def

lemma repository_engine_unset:
  assumes "\<not> async_engine_set db_service"
  shows "with_connection db_service block =
     Inl (ServerErrorExn \<lparr> ServerError_message = ''Async engine is None!'',
                           ServerError_status_code = 500,
                           ServerError_detail = Phrase ''Internal Server Error'',
                           ServerError_is_operational = False \<rparr>)"
  using assms by (simp add: with_connection_def async_engine_unset)

text \<open>
  \<^bold>\<open>C5\<close>. The claim says that every fault of the repository call becomes an internal error
  with status 500. The code does not do so for the fault that its own database service
  raises when the engine is not set: that \<^verbatim>\<open>ServerError\<close> is built without a \<^verbatim>\<open>Detail\<close>,
  and the clause of the service that reads \<^verbatim>\<open>err.detail.cause\<close> raises \<^verbatim>\<open>AttributeError\<close>.
  The theorem evaluates the three operations over a repository whose database service has
  no engine.
\<close>

theorem service_engine_unset:
  "retrieve_user lib (UserRepository (db_service \<lparr> async_engine_set := False \<rparr>) lib) user_id
      = Inl (OtherExn (AttributeError ''cause''))
   \<and> replace_user lib (UserRepository (db_service \<lparr> async_engine_set := False \<rparr>) lib) user_id user
      = Inl (OtherExn (AttributeError ''cause''))
   \<and> remove_user lib (UserRepository (db_service \<lparr> async_engine_set := False \<rparr>) lib) user_id
      = Inl (OtherExn (AttributeError ''cause''))
   \<and> read_user (db_service \<lparr> async_engine_set := False \<rparr>) lib user_id
      = Inl (ServerErrorExn \<lparr> ServerError_message = ''Async engine is None!'',
                           ServerError_status_code = 500,
                           ServerError_detail = Phrase ''Internal Server Error'',
                           ServerError_is_operational = False \<rparr>)"
  by (simp add: service_defs repository_defs UserRepository_def repository_engine_unset
      service_except_no_detail)

text \<open>
  For every other fault, and for a \<open>None\<close> result, the service does what the claim says.
\<close>

lemma service_fault_is_500:
  assumes "carries_cause err"
  shows "IUserRepository_read_user user_repository user_id = Inl err \<Longrightarrow>
           \<exists>error. retrieve_user lib user_repository user_id = Inl (ServerErrorExn error)
             \<and> ServerError_status_code error = 500 \<and> \<not> ServerError_is_operational error"
    and "IUserRepository_update_user user_repository user_id user = Inl err \<Longrightarrow>
           \<exists>error. replace_user lib user_repository user_id user = Inl (ServerErrorExn error)
             \<and> ServerError_status_code error = 500 \<and> \<not> ServerError_is_operational error"
    and "IUserRepository_delete_user user_repository user_id = Inl err \<Longrightarrow>
           \<exists>error. remove_user lib user_repository user_id = Inl (ServerErrorExn error)
             \<and> ServerError_status_code error = 500 \<and> \<not> ServerError_is_operational error"
    and "IUserRepository_create_user user_repository user = Inl err \<Longrightarrow>
           \<exists>error. register_user lib user_repository user = Inl (ServerErrorExn error)
             \<and> ServerError_status_code error = 500 \<and> \<not> ServerError_is_operational error"
  using service_except_500[OF assms, of lib]
  by (simp_all add: service_defs) (metis ServerError.select_convs)+

lemma service_absence:
  shows "IUserRepository_read_user user_repository user_id = Inr None \<Longrightarrow>
           \<exists>error. retrieve_user lib user_repository user_id = Inl (ServerErrorExn error)
             \<and> ServerError_status_code error = 404 \<and> ServerError_is_operational error"
    and "IUserRepository_update_user user_repository user_id user = Inr None \<Longrightarrow>
           \<exists>error. replace_user lib user_repository user_id user = Inl (ServerErrorExn error)
             \<and> ServerError_status_code error = 404 \<and> ServerError_is_operational error"
    and "IUserRepository_delete_user user_repository user_id = Inr None \<Longrightarrow>
           \<exists>error. remove_user lib user_repository user_id = Inl (ServerErrorExn error)
             \<and> ServerError_status_code error = 404 \<and> ServerError_is_operational error"
    and "IUserRepository_create_user user_repository user = Inr None \<Longrightarrow>
           \<exists>error. register_user lib user_repository user = Inl (ServerErrorExn error)
             \<and> ServerError_status_code error = 500 \<and> \<not> ServerError_is_operational error"
  by (simp_all add: service_defs raise_ServerError_404 raise_ServerError_500)

text \<open>
  With the engine set, every fault of the repository above carries a cause, so the service
  over it raises a \<^verbatim>\<open>ServerError\<close> with status 500 for each of them; and zero rows affected
  end as a \<^verbatim>\<open>ServerError\<close> with status 404.
\<close>

lemma repository_fault_carries_cause:
  assumes "async_engine_set db_service"
  shows "read_user db_service lib user_id = Inl err \<Longrightarrow> carries_cause err"
    and "update_user db_service lib user_id user = Inl err \<Longrightarrow> carries_cause err"
    and "delete_user db_service lib user_id = Inl err \<Longrightarrow> carries_cause err"
    and "create_user db_service lib user = Inl err \<Longrightarrow> carries_cause err"
  unfolding repository_defs
  by (erule with_connection_carries_cause [OF assms])+

lemma service_over_repository_fault:
  assumes "async_engine_set db_service"
  shows "read_user db_service lib user_id = Inl err \<Longrightarrow>
           \<exists>error. retrieve_user lib (UserRepository db_service lib) user_id
                      = Inl (ServerErrorExn error)
             \<and> ServerError_status_code error = 500 \<and> \<not> ServerError_is_operational error"
    and "update_user db_service lib user_id user = Inl err \<Longrightarrow>
           \<exists>error. replace_user lib (UserRepository db_service lib) user_id user
                      = Inl (ServerErrorExn error)
             \<and> ServerError_status_code error = 500 \<and> \<not> ServerError_is_operational error"
    and "delete_user db_service lib user_id = Inl err \<Longrightarrow>
           \<exists>error. remove_user lib (UserRepository db_service lib) user_id
                      = Inl (ServerErrorExn error)
             \<and> ServerError_status_code error = 500 \<and> \<not> ServerError_is_operational error"
    and "create_user db_service lib user = Inl err \<Longrightarrow>
           \<exists>error. register_user lib (UserRepository db_service lib) user
                      = Inl (ServerErrorExn error)
             \<and> ServerError_status_code error = 500 \<and> \<not> ServerError_is_operational error"
proof -
  show "\<exists>error. retrieve_user lib (UserRepository db_service lib) user_id
                      = Inl (ServerErrorExn error)
             \<and> ServerError_status_code error = 500 \<and> \<not> ServerError_is_operational error"
    if h: "read_user db_service lib user_id = Inl err"
    using repository_fault_carries_cause(1) [OF assms h]
    by (rule service_fault_is_500(1)) (simp add: UserRepository_def h)
  show "\<exists>error. replace_user lib (UserRepository db_service lib) user_id user
                      = Inl (ServerErrorExn error)
             \<and> ServerError_status_code error = 500 \<and> \<not> ServerError_is_operational error"
    if h: "update_user db_service lib user_id user = Inl err"
    using repository_fault_carries_cause(2) [OF assms h]
    by (rule service_fault_is_500(2)) (simp add: UserRepository_def h)
  show "\<exists>error. remove_user lib (UserRepository db_service lib) user_id
                      = Inl (ServerErrorExn error)
             \<and> ServerError_status_code error = 500 \<and> \<not> ServerError_is_operational error"
    if h: "delete_user db_service lib user_id = Inl err"
    using repository_fault_carries_cause(3) [OF assms h]
    by (rule service_fault_is_500(3)) (simp add: UserRepository_def h)
  show "\<exists>error. register_user lib (UserRepository db_service lib) user
                      = Inl (ServerErrorExn error)
             \<and> ServerError_status_code error = 500 \<and> \<not> ServerError_is_operational error"
    if h: "create_user db_service lib user = Inl err"
    using repository_fault_carries_cause(4) [OF assms h]
    by (rule service_fault_is_500(4)) (simp add: UserRepository_def h)
qed

lemma service_over_repository_absence:
  assumes "async_engine_set db_service" "connect db_service = None" "UUID lib user_id = Inr u"
    and "execute db_service (Select u) = Inr result" "rowcount result = 0"
  shows "retrieve_user lib (UserRepository db_service lib) user_id =
     Inl (ServerErrorExn
            \<lparr> ServerError_message = ''User could not be read'', ServerError_status_code = 404,
              ServerError_detail =
                DetailObject \<lparr> Detail_context = Some (UStr user_id), Detail_cause = None \<rparr>,
              ServerError_is_operational = True \<rparr>)"
  using assms
  by (simp add: retrieve_user_def UserRepository_def read_user_def with_connection_ok
      raise_ServerError_404)

lemma operation_raises:
  assumes "with_connection db_service
           (try_except db_service message context
              (case UUID lib user_id of
                 Inl err \<Rightarrow> Inl err
               | Inr u \<Rightarrow>
                   (case execute db_service (statement u) of
                      Inl err \<Rightarrow> Inl err
                    | Inr result \<Rightarrow>
                        if rowcount result = 0 then Inr None
                        else some_user (first_to_domain db_service lib result)))) = Inl err"
  shows "step_failed db_service lib user_id statement"
proof (cases "async_engine_set db_service \<and> connect db_service = None")
  case False
  then show ?thesis by (auto simp add: step_failed_def)
next
  case True
  show ?thesis
  proof (cases "UUID lib user_id")
    case (Inl e)
    then show ?thesis by (simp add: step_failed_def)
  next
    case u: (Inr u)
    show ?thesis
    proof (cases "execute db_service (statement u)")
      case (Inl e)
      then show ?thesis using u by (simp add: step_failed_def)
    next
      case r: (Inr result)
      show ?thesis
      proof (cases "rowcount result = 0")
        case z: True
        then show ?thesis using assms True u r by (simp add: with_connection_ok)
      next
        case nz: False
        then obtain e where "first_to_domain db_service lib result = Inl e"
          using assms True u r
          by (cases "first_to_domain db_service lib result")
            (simp_all add: with_connection_ok some_user_def)
        then show ?thesis using u r nz by (auto simp add: step_failed_def)
      qed
    qed
  qed
qed

text \<open>
  \<^bold>\<open>C6\<close>. With the connection acquired and an identifier that parses, \<^verbatim>\<open>read_user\<close>,
  \<^verbatim>\<open>update_user\<close> and \<^verbatim>\<open>delete_user\<close> return \<open>None\<close> when the database reports zero rows
  affected; and whenever one of them raises, a step of the operation failed, which zero
  rows affected is not.
\<close>

theorem zero_rows_is_absence:
  "(async_engine_set db_service \<and> connect db_service = None \<and> UUID lib user_id = Inr u
      \<longrightarrow> (execute db_service (Select u) = Inr result \<and> rowcount result = 0
             \<longrightarrow> read_user db_service lib user_id = Inr None)
        \<and> (execute db_service (Update u (User_name user) (User_email user)) = Inr result'
             \<and> rowcount result' = 0
             \<longrightarrow> update_user db_service lib user_id user = Inr None)
        \<and> (execute db_service (Delete u) = Inr result'' \<and> rowcount result'' = 0
             \<longrightarrow> delete_user db_service lib user_id = Inr None))
   \<and> (read_user db_service lib user_id = Inl err
        \<longrightarrow> step_failed db_service lib user_id Select)
   \<and> (update_user db_service lib user_id user = Inl err'
        \<longrightarrow> step_failed db_service lib user_id
              (\<lambda>u. Update u (User_name user) (User_email user)))
   \<and> (delete_user db_service lib user_id = Inl err''
        \<longrightarrow> step_failed db_service lib user_id Delete)"
proof -
  have zero: "read_user db_service lib user_id = Inr None"
    if "async_engine_set db_service" "connect db_service = None" "UUID lib user_id = Inr u"
      "execute db_service (Select u) = Inr result" "rowcount result = 0"
    unfolding read_user_def using that by (simp add: with_connection_ok)
  have zero': "update_user db_service lib user_id user = Inr None"
    if "async_engine_set db_service" "connect db_service = None" "UUID lib user_id = Inr u"
      "execute db_service (Update u (User_name user) (User_email user)) = Inr result'"
      "rowcount result' = 0"
    unfolding update_user_def using that by (simp add: with_connection_ok)
  have zero'': "delete_user db_service lib user_id = Inr None"
    if "async_engine_set db_service" "connect db_service = None" "UUID lib user_id = Inr u"
      "execute db_service (Delete u) = Inr result''" "rowcount result'' = 0"
    unfolding delete_user_def using that by (simp add: with_connection_ok)
  have fail: "step_failed db_service lib user_id Select"
    if "read_user db_service lib user_id = Inl err"
    using that unfolding read_user_def by (rule operation_raises)
  have fail': "step_failed db_service lib user_id
                 (\<lambda>u. Update u (User_name user) (User_email user))"
    if "update_user db_service lib user_id user = Inl err'"
    using that unfolding update_user_def by (rule operation_raises)
  have fail'': "step_failed db_service lib user_id Delete"
    if "delete_user db_service lib user_id = Inl err''"
    using that unfolding delete_user_def by (rule operation_raises)
  show ?thesis using zero zero' zero'' fail fail' fail'' by blast
qed

theorem zero_rows_is_absence_witness:
  "async_engine_set (example_db (Inr \<lparr> rowcount = 0, first = None \<rparr>))
   \<and> connect (example_db (Inr \<lparr> rowcount = 0, first = None \<rparr>)) = None
   \<and> UUID example_lib ''3f2b8c1e-9d4a-4b7e-8f0a-1c2d3e4f5a6b'' = Inr example_uuid
   \<and> execute (example_db (Inr \<lparr> rowcount = 0, first = None \<rparr>)) (Select example_uuid)
        = Inr \<lparr> rowcount = 0, first = None \<rparr>
   \<and> read_user (example_db (Inr \<lparr> rowcount = 0, first = None \<rparr>)) example_lib
        ''3f2b8c1e-9d4a-4b7e-8f0a-1c2d3e4f5a6b'' = Inr None
   \<and> update_user (example_db (Inr \<lparr> rowcount = 0, first = None \<rparr>)) example_lib
        ''3f2b8c1e-9d4a-4b7e-8f0a-1c2d3e4f5a6b'' example_user = Inr None
   \<and> delete_user (example_db (Inr \<lparr> rowcount = 0, first = None \<rparr>)) example_lib
        ''3f2b8c1e-9d4a-4b7e-8f0a-1c2d3e4f5a6b'' = Inr None
   \<and> read_user
        (example_db (Inl (PyExn ''ProgrammingError'' [PyStr ''relation users does not exist'']
                            ''relation users does not exist'' ''UndefinedTableError'' None)))
        example_lib ''3f2b8c1e-9d4a-4b7e-8f0a-1c2d3e4f5a6b''
        = Inl (ServerErrorExn
                \<lparr> ServerError_message = ''An error occurred when reading a user from database'',
                  ServerError_status_code = 500,
                  ServerError_detail =
                    DetailObject
                      \<lparr> Detail_context = Some (UStr ''3f2b8c1e-9d4a-4b7e-8f0a-1c2d3e4f5a6b''),
                        Detail_cause = Some (UStr ''UndefinedTableError'') \<rparr>,
                  ServerError_is_operational = False \<rparr>)
   \<and> step_failed
        (example_db (Inl (PyExn ''ProgrammingError'' [PyStr ''relation users does not exist'']
                            ''relation users does not exist'' ''UndefinedTableError'' None)))
        example_lib ''3f2b8c1e-9d4a-4b7e-8f0a-1c2d3e4f5a6b'' Select"
proof -
  let ?zero = "example_db (Inr \<lparr> rowcount = 0, first = None \<rparr>)"
  let ?down = "example_db (Inl (PyExn ''ProgrammingError'' [PyStr ''relation users does not exist'']
                            ''relation users does not exist'' ''UndefinedTableError'' None))"
  let ?uid = "''3f2b8c1e-9d4a-4b7e-8f0a-1c2d3e4f5a6b''"
  have env: "async_engine_set ?zero" "connect ?zero = None"
    "UUID example_lib ?uid = Inr example_uuid"
    "\<And>q. execute ?zero q = Inr \<lparr> rowcount = 0, first = None \<rparr>"
    by (simp_all add: example_db_def UUID_example)
  have raised: "read_user ?down example_lib ?uid
        = Inl (ServerErrorExn
                \<lparr> ServerError_message = ''An error occurred when reading a user from database'',
                  ServerError_status_code = 500,
                  ServerError_detail =
                    DetailObject
                      \<lparr> Detail_context = Some (UStr ?uid),
                        Detail_cause = Some (UStr ''UndefinedTableError'') \<rparr>,
                  ServerError_is_operational = False \<rparr>)"
    by (simp add: read_user_def with_connection_ok try_except_Inl except_clause_rollback_ok
        example_db_def UUID_example)
  show ?thesis
    using zero_rows_is_absence [of ?zero example_lib ?uid example_uuid
        "\<lparr> rowcount = 0, first = None \<rparr>" example_user
        "\<lparr> rowcount = 0, first = None \<rparr>" "\<lparr> rowcount = 0, first = None \<rparr>"]
      zero_rows_is_absence [of ?down example_lib ?uid _ _ example_user _ _
        "ServerErrorExn
                \<lparr> ServerError_message = ''An error occurred when reading a user from database'',
                  ServerError_status_code = 500,
                  ServerError_detail =
                    DetailObject
                      \<lparr> Detail_context = Some (UStr ?uid),
                        Detail_cause = Some (UStr ''UndefinedTableError'') \<rparr>,
                  ServerError_is_operational = False \<rparr>"]
      env raised
    by simp
qed

lemma operation_malformed:
  assumes "UUID lib user_id = Inl e"
  shows "with_connection db_service
           (try_except db_service message context
              (case UUID lib user_id of
                 Inl err \<Rightarrow> Inl err
               | Inr u \<Rightarrow> body u)) \<noteq> Inr None"
    and "async_engine_set db_service \<Longrightarrow> connect db_service = None \<Longrightarrow>
         rollback db_service = None \<Longrightarrow>
         with_connection db_service
           (try_except db_service message context
              (case UUID lib user_id of
                 Inl err \<Rightarrow> Inl err
               | Inr u \<Rightarrow> body u)) =
         Inl (ServerErrorExn
                \<lparr> ServerError_message = message, ServerError_status_code = 500,
                  ServerError_detail =
                    DetailObject \<lparr> Detail_context = context,
                                   Detail_cause = Some (UStr (exn_cause e)) \<rparr>,
                  ServerError_is_operational = False \<rparr>)"
    and "async_engine_set db_service \<Longrightarrow>
         \<exists>err. with_connection db_service
           (try_except db_service message context
              (case UUID lib user_id of
                 Inl err \<Rightarrow> Inl err
               | Inr u \<Rightarrow> body u)) = Inl err \<and> carries_cause err"
proof -
  let ?block = "try_except db_service message context
              (case UUID lib user_id of Inl err \<Rightarrow> Inl err | Inr u \<Rightarrow> body u)"
  have block: "?block = Inl (except_clause db_service message context e)"
    using assms by (simp add: try_except_Inl)
  show "with_connection db_service ?block \<noteq> Inr None"
    by (rule with_connection_not_None) (simp add: block)
  show "with_connection db_service ?block =
         Inl (ServerErrorExn
                \<lparr> ServerError_message = message, ServerError_status_code = 500,
                  ServerError_detail =
                    DetailObject \<lparr> Detail_context = context,
                                   Detail_cause = Some (UStr (exn_cause e)) \<rparr>,
                  ServerError_is_operational = False \<rparr>)"
    if "async_engine_set db_service" "connect db_service = None" "rollback db_service = None"
    using that by (simp add: with_connection_ok block except_clause_rollback_ok)
  show "\<exists>err. with_connection db_service ?block = Inl err \<and> carries_cause err"
    if "async_engine_set db_service"
  proof (cases "connect db_service")
    case None
    then show ?thesis
      using that by (simp add: with_connection_ok block except_clause_carries_cause)
  next
    case (Some c)
    then show ?thesis
      using that by (simp add: with_connection_def async_engine_def carries_cause_def)
  qed
qed

text \<open>
  \<^bold>\<open>C10\<close> (as amended). For every \<open>user_id\<close> that the constructor \<^verbatim>\<open>UUID\<close> refuses,
  \<^verbatim>\<open>read_user\<close>, \<^verbatim>\<open>update_user\<close> and \<^verbatim>\<open>delete_user\<close> do not return \<open>None\<close>. With the
  connection acquired (and the rollback done) the failure of the parse is what the generic
  clause catches and raises again as a \<^verbatim>\<open>ServerError\<close> with status 500, and with the engine
  set the service over this repository raises a \<^verbatim>\<open>ServerError\<close> with status 500, not 404.
\<close>

theorem malformed_id_is_internal_error:
  assumes "UUID lib user_id = Inl e"
  shows "read_user db_service lib user_id \<noteq> Inr None
     \<and> update_user db_service lib user_id user \<noteq> Inr None
     \<and> delete_user db_service lib user_id \<noteq> Inr None
     \<and> (async_engine_set db_service \<and> connect db_service = None \<and> rollback db_service = None
        \<longrightarrow> read_user db_service lib user_id =
              Inl (ServerErrorExn
                \<lparr> ServerError_message = ''An error occurred when reading a user from database'',
                  ServerError_status_code = 500,
                  ServerError_detail =
                    DetailObject \<lparr> Detail_context = Some (UStr user_id),
                                   Detail_cause = Some (UStr (exn_cause e)) \<rparr>,
                  ServerError_is_operational = False \<rparr>)
          \<and> update_user db_service lib user_id user =
              Inl (ServerErrorExn
                \<lparr> ServerError_message = ''An error occurred when updating a user from database'',
                  ServerError_status_code = 500,
                  ServerError_detail =
                    DetailObject
                      \<lparr> Detail_context =
                          Some (UDict [(''user_id'', UStr user_id), (''user'', UUser user)]),
                        Detail_cause = Some (UStr (exn_cause e)) \<rparr>,
                  ServerError_is_operational = False \<rparr>)
          \<and> delete_user db_service lib user_id =
              Inl (ServerErrorExn
                \<lparr> ServerError_message = ''An error occurred when deleting a user from database'',
                  ServerError_status_code = 500,
                  ServerError_detail =
                    DetailObject \<lparr> Detail_context = Some (UStr user_id),
                                   Detail_cause = Some (UStr (exn_cause e)) \<rparr>,
                  ServerError_is_operational = False \<rparr>))
     \<and> (async_engine_set db_service
        \<longrightarrow> (\<exists>error. retrieve_user lib (UserRepository db_service lib) user_id
                       = Inl (ServerErrorExn error)
                 \<and> ServerError_status_code error = 500 \<and> \<not> ServerError_is_operational error)
          \<and> (\<exists>error. replace_user lib (UserRepository db_service lib) user_id user
                       = Inl (ServerErrorExn error)
                 \<and> ServerError_status_code error = 500 \<and> \<not> ServerError_is_operational error)
          \<and> (\<exists>error. remove_user lib (UserRepository db_service lib) user_id
                       = Inl (ServerErrorExn error)
                 \<and> ServerError_status_code error = 500 \<and> \<not> ServerError_is_operational error))"
proof -
  note m = operation_malformed [OF assms]
  have a: "read_user db_service lib user_id \<noteq> Inr None"
    "update_user db_service lib user_id user \<noteq> Inr None"
    "delete_user db_service lib user_id \<noteq> Inr None"
    unfolding repository_defs by (rule m(1))+
  have b: "read_user db_service lib user_id =
              Inl (ServerErrorExn
                \<lparr> ServerError_message = ''An error occurred when reading a user from database'',
                  ServerError_status_code = 500,
                  ServerError_detail =
                    DetailObject \<lparr> Detail_context = Some (UStr user_id),
                                   Detail_cause = Some (UStr (exn_cause e)) \<rparr>,
                  ServerError_is_operational = False \<rparr>)"
      "update_user db_service lib user_id user =
              Inl (ServerErrorExn
                \<lparr> ServerError_message = ''An error occurred when updating a user from database'',
                  ServerError_status_code = 500,
                  ServerError_detail =
                    DetailObject
                      \<lparr> Detail_context =
                          Some (UDict [(''user_id'', UStr user_id), (''user'', UUser user)]),
                        Detail_cause = Some (UStr (exn_cause e)) \<rparr>,
                  ServerError_is_operational = False \<rparr>)"
      "delete_user db_service lib user_id =
              Inl (ServerErrorExn
                \<lparr> ServerError_message = ''An error occurred when deleting a user from database'',
                  ServerError_status_code = 500,
                  ServerError_detail =
                    DetailObject \<lparr> Detail_context = Some (UStr user_id),
                                   Detail_cause = Some (UStr (exn_cause e)) \<rparr>,
                  ServerError_is_operational = False \<rparr>)"
    if "async_engine_set db_service" "connect db_service = None" "rollback db_service = None"
    unfolding repository_defs using that by (rule m(2))+
  have c: "\<exists>error. retrieve_user lib (UserRepository db_service lib) user_id
                       = Inl (ServerErrorExn error)
                 \<and> ServerError_status_code error = 500 \<and> \<not> ServerError_is_operational error"
      "\<exists>error. replace_user lib (UserRepository db_service lib) user_id user
                       = Inl (ServerErrorExn error)
                 \<and> ServerError_status_code error = 500 \<and> \<not> ServerError_is_operational error"
      "\<exists>error. remove_user lib (UserRepository db_service lib) user_id
                       = Inl (ServerErrorExn error)
                 \<and> ServerError_status_code error = 500 \<and> \<not> ServerError_is_operational error"
    if engine: "async_engine_set db_service"
  proof -
    obtain err where "read_user db_service lib user_id = Inl err" "carries_cause err"
      unfolding read_user_def using m(3) [OF engine] by blast
    then show "\<exists>error. retrieve_user lib (UserRepository db_service lib) user_id
                       = Inl (ServerErrorExn error)
                 \<and> ServerError_status_code error = 500 \<and> \<not> ServerError_is_operational error"
      by (intro service_fault_is_500(1)) (simp_all add: UserRepository_def)
    obtain err where "update_user db_service lib user_id user = Inl err" "carries_cause err"
      unfolding update_user_def using m(3) [OF engine] by blast
    then show "\<exists>error. replace_user lib (UserRepository db_service lib) user_id user
                       = Inl (ServerErrorExn error)
                 \<and> ServerError_status_code error = 500 \<and> \<not> ServerError_is_operational error"
      by (intro service_fault_is_500(2)) (simp_all add: UserRepository_def)
    obtain err where "delete_user db_service lib user_id = Inl err" "carries_cause err"
      unfolding delete_user_def using m(3) [OF engine] by blast
    then show "\<exists>error. remove_user lib (UserRepository db_service lib) user_id
                       = Inl (ServerErrorExn error)
                 \<and> ServerError_status_code error = 500 \<and> \<not> ServerError_is_operational error"
      by (intro service_fault_is_500(3)) (simp_all add: UserRepository_def)
  qed
  show ?thesis using a b c by blast
qed

theorem malformed_id_is_internal_error_witness:
  "UUID example_lib ''not-a-uuid'' = Inl (ValueError ''badly formed hexadecimal UUID string'')
   \<and> async_engine_set (example_db (Inr \<lparr> rowcount = 0, first = None \<rparr>))
   \<and> connect (example_db (Inr \<lparr> rowcount = 0, first = None \<rparr>)) = None
   \<and> rollback (example_db (Inr \<lparr> rowcount = 0, first = None \<rparr>)) = None
   \<and> read_user (example_db (Inr \<lparr> rowcount = 0, first = None \<rparr>)) example_lib ''not-a-uuid''
        = Inl (ServerErrorExn
                \<lparr> ServerError_message = ''An error occurred when reading a user from database'',
                  ServerError_status_code = 500,
                  ServerError_detail =
                    DetailObject \<lparr> Detail_context = Some (UStr ''not-a-uuid''),
                                   Detail_cause = Some (UStr ''None'') \<rparr>,
                  ServerError_is_operational = False \<rparr>)
   \<and> retrieve_user example_lib
        (UserRepository (example_db (Inr \<lparr> rowcount = 0, first = None \<rparr>)) example_lib)
        ''not-a-uuid''
        = Inl (ServerErrorExn
                \<lparr> ServerError_message = ''An error occurred when reading a user'',
                  ServerError_status_code = 500,
                  ServerError_detail =
                    DetailObject \<lparr> Detail_context = Some (UStr ''not-a-uuid''),
                                   Detail_cause = Some (UStr ''None'') \<rparr>,
                  ServerError_is_operational = False \<rparr>)"
proof -
  let ?db = "example_db (Inr \<lparr> rowcount = 0, first = None \<rparr>)"
  have parse: "UUID example_lib ''not-a-uuid''
                 = Inl (ValueError ''badly formed hexadecimal UUID string'')"
    by (simp add: example_lib_def UUID_init_not_a_uuid)
  have env: "async_engine_set ?db" "connect ?db = None" "rollback ?db = None"
    by (simp_all add: example_db_def)
  have cause: "exn_cause (ValueError ''badly formed hexadecimal UUID string'') = ''None''"
    by (simp add: ValueError_def builtin_exn_def)
  show ?thesis
    using malformed_id_is_internal_error [OF parse, of ?db example_user] parse env cause
    by (simp add: retrieve_user_def UserRepository_def service_except_def cause_of_def
        py_str_def raise_ServerError_500)
qed

text \<open>
  The claim as written, for every \<open>user_id\<close> that is not in the textual form of a UUID,
  fails for an identifier that the constructor accepts all the same. \<^verbatim>\<open>0x\<close> followed by
  thirty zeros is not in that form; the constructor reads it as the nil UUID, the statement
  is sent, and with no row affected the repository returns \<open>None\<close> and the service raises
  the \<^verbatim>\<open>ServerError\<close> with status 404.
\<close>

theorem malformed_id_counterexample:
  "\<not> canonical_uuid ''0x000000000000000000000000000000''
   \<and> read_user (example_db (Inr \<lparr> rowcount = 0, first = None \<rparr>)) example_lib
        ''0x000000000000000000000000000000'' = Inr None
   \<and> retrieve_user example_lib
        (UserRepository (example_db (Inr \<lparr> rowcount = 0, first = None \<rparr>)) example_lib)
        ''0x000000000000000000000000000000''
        = Inl (ServerErrorExn
                \<lparr> ServerError_message = ''User could not be read'',
                  ServerError_status_code = 404,
                  ServerError_detail =
                    DetailObject
                      \<lparr> Detail_context = Some (UStr ''0x000000000000000000000000000000''),
                        Detail_cause = None \<rparr>,
                  ServerError_is_operational = True \<rparr>)"
proof -
  let ?db = "example_db (Inr \<lparr> rowcount = 0, first = None \<rparr>)"
  let ?uid = "''0x000000000000000000000000000000''"
  have form: "\<not> canonical_uuid ?uid" by code_simp
  have parse: "UUID example_lib ?uid = Inr (UUID_hex ''00000000000000000000000000000000'')"
    by (simp add: example_lib_def UUID_init_0x)
  have read: "read_user ?db example_lib ?uid = Inr None"
    by (simp add: read_user_def with_connection_ok example_db_def parse)
  have "retrieve_user example_lib (UserRepository ?db example_lib) ?uid
        = Inl (ServerErrorExn
                \<lparr> ServerError_message = ''User could not be read'',
                  ServerError_status_code = 404,
                  ServerError_detail =
                    DetailObject \<lparr> Detail_context = Some (UStr ?uid), Detail_cause = None \<rparr>,
                  ServerError_is_operational = True \<rparr>)"
    by (simp add: retrieve_user_def UserRepository_def read raise_ServerError_404)
  with form read show ?thesis by simp
qed

end
